theory Spec2Isabelle
  imports Complex_Main "HOL-Library.AList" "HOL-Library.Product_Lexorder"
    "HOL-Library.List_Lexorder" "HOL-Library.Char_ord" "HOL-Library.Multiset"
begin

section \<open>Values\<close>

text \<open>
  A JavaScript number is a double: not-a-number, one of the two infinities, or a finite
  value. The finite values are rationals; the handlers only compare a number with zero and
  test it for not-a-number, so rounding plays no part and negative zero behaves as zero.
\<close>

datatype jsnum = NaN | NegInf | Fin rat | PosInf

text \<open>
  The values that travel through the handlers: what \<^verbatim>\<open>JSON.parse\<close> produces,
  \<^verbatim>\<open>undefined\<close> (the value of an absent property), and the two object kinds the
  handlers create themselves, \<^verbatim>\<open>Date\<close> (milliseconds since the epoch) and
  \<^verbatim>\<open>ObjectId\<close> (a 96-bit number). An object is the list of its own properties in
  enumeration order.
\<close>

datatype jsval =
    JUndefined
  | JNull
  | JBool bool
  | JNum jsnum
  | JStr string
  | JArr "jsval list"
  | JObj "(string \<times> jsval) list"
  | JDate int
  | JOid nat

type_synonym obj = "(string \<times> jsval) list"

text \<open>Property read \<^verbatim>\<open>o[k]\<close>: an absent property reads as \<^verbatim>\<open>undefined\<close>.\<close>

definition field :: "obj \<Rightarrow> string \<Rightarrow> jsval" where
  "field ob k = (case map_of ob k of None \<Rightarrow> JUndefined | Some v \<Rightarrow> v)"

text \<open>\<^verbatim>\<open>Object.keys\<close>.\<close>

definition Object_keys :: "obj \<Rightarrow> string list" where
  "Object_keys ob = map fst ob"

text \<open>The \<^verbatim>\<open>typeof\<close> operator.\<close>

fun typeof :: "jsval \<Rightarrow> string" where
  "typeof JUndefined = ''undefined''"
| "typeof JNull = ''object''"
| "typeof (JBool b) = ''boolean''"
| "typeof (JNum n) = ''number''"
| "typeof (JStr s) = ''string''"
| "typeof (JArr xs) = ''object''"
| "typeof (JObj ps) = ''object''"
| "typeof (JDate t) = ''object''"
| "typeof (JOid i) = ''object''"

text \<open>\<^verbatim>\<open>Number.isNaN(v)\<close>: true for the number not-a-number only.\<close>

fun Number_isNaN :: "jsval \<Rightarrow> bool" where
  "Number_isNaN (JNum NaN) = True"
| "Number_isNaN v = False"

text \<open>\<^verbatim>\<open>v < 0\<close> for a value already known to be a number; every comparison with
  not-a-number is false.\<close>

fun lt_zero :: "jsval \<Rightarrow> bool" where
  "lt_zero (JNum NegInf) = True"
| "lt_zero (JNum (Fin r)) = (r < 0)"
| "lt_zero v = False"

text \<open>The nullish coalescing operator \<^verbatim>\<open>a ?? b\<close>.\<close>

definition nullish_or :: "jsval \<Rightarrow> jsval \<Rightarrow> jsval" where
  "nullish_or a b = (if a = JUndefined \<or> a = JNull then b else a)"

section \<open>Responses\<close>

text \<open>
  What a handler writes on \<^verbatim>\<open>res\<close>: the status code and the JSON body;
  \<^verbatim>\<open>res.status(204).send()\<close> has no body.
\<close>

record response =
  status :: nat
  json :: "jsval option"

definition reply :: "nat \<Rightarrow> obj \<Rightarrow> response" where
  "reply code ob = \<lparr>status = code, json = Some (JObj ob)\<rparr>"

definition error_reply :: "nat \<Rightarrow> string \<Rightarrow> response" where
  "error_reply code msg = reply code [(''error'', JStr msg)]"

text \<open>\<^verbatim>\<open>handleServerError\<close> (the logging aside).\<close>

definition handleServerError :: response where
  "handleServerError = error_reply 500 ''Internal server error''"

section \<open>Identifier validation\<close>

text \<open>
  \<^verbatim>\<open>ObjectId.isValid\<close> and \<^verbatim>\<open>new ObjectId(id)\<close> belong to the database driver, not
  to this repository: the handlers take them as parameters.
\<close>

record driver =
  ObjectId_isValid :: "string \<Rightarrow> bool"
  ObjectId_new :: "string \<Rightarrow> nat"

text \<open>\<^verbatim>\<open>validateId\<close>: \<open>None\<close> is the return value \<^verbatim>\<open>true\<close> (nothing written),
  \<open>Some r\<close> is \<^verbatim>\<open>false\<close> after writing \<open>r\<close>.\<close>

definition validateId :: "driver \<Rightarrow> string \<Rightarrow> response option" where
  "validateId drv ident =
     (if \<not> ObjectId_isValid drv ident then Some (error_reply 400 ''Invalid item id'')
      else None)"

section \<open>Field validation\<close>

definition REQUIRED_FIELDS :: "string list" where
  "REQUIRED_FIELDS = [''name'', ''price'', ''category'']"

definition is_missing :: "obj \<Rightarrow> string \<Rightarrow> bool" where
  "is_missing b f = (field b f = JUndefined \<or> field b f = JNull \<or> field b f = JStr [])"

text \<open>The price test shared by both validators:
  \<^verbatim>\<open>typeof p !== "number" || Number.isNaN(p) || p < 0\<close>.\<close>

definition bad_price :: "jsval \<Rightarrow> bool" where
  "bad_price p = (typeof p \<noteq> ''number'' \<or> Number_isNaN p \<or> lt_zero p)"

definition validateRequiredFields :: "obj \<Rightarrow> response option" where
  "validateRequiredFields b =
     (let missing = filter (is_missing b) REQUIRED_FIELDS in
      if length missing > 0 then
        Some (reply 400 [(''error'', JStr ''Missing required fields''),
                         (''missing'', JArr (map JStr missing))])
      else if typeof (field b ''name'') \<noteq> ''string'' then
        Some (error_reply 400 ''Field 'name' must be a string'')
      else if typeof (field b ''category'') \<noteq> ''string'' then
        Some (error_reply 400 ''Field 'category' must be a string'')
      else if bad_price (field b ''price'') then
        Some (error_reply 400 ''Field 'price' must be a non-negative number'')
      else None)"

definition allowed :: "string list" where
  "allowed = [''name'', ''price'', ''category'', ''description'']"

definition validatePatchFields :: "obj \<Rightarrow> response option" where
  "validatePatchFields b =
     (let keys = Object_keys b in
      if length keys = 0 then Some (error_reply 400 ''PATCH body cannot be empty'')
      else
        let invalid = filter (\<lambda>k. k \<notin> set allowed) keys in
        if length invalid > 0 then
          Some (reply 400 [(''error'', JStr ''Invalid fields in PATCH''),
                           (''invalid'', JArr (map JStr invalid)),
                           (''allowed'', JArr (map JStr allowed))])
        else if field b ''name'' \<noteq> JUndefined \<and> typeof (field b ''name'') \<noteq> ''string'' then
          Some (error_reply 400 ''Field 'name' must be a string'')
        else if field b ''category'' \<noteq> JUndefined
                \<and> typeof (field b ''category'') \<noteq> ''string'' then
          Some (error_reply 400 ''Field 'category' must be a string'')
        else if field b ''price'' \<noteq> JUndefined \<and> bad_price (field b ''price'') then
          Some (error_reply 400 ''Field 'price' must be a non-negative number'')
        else if field b ''description'' \<noteq> JUndefined
                \<and> typeof (field b ''description'') \<noteq> ''string'' then
          Some (error_reply 400 ''Field 'description' must be a string'')
        else None)"

section \<open>The document store\<close>

text \<open>
  The store is MongoDB, reached through its driver; neither is code of this repository.
  The model below is the documented behaviour of the five collection operations the
  handlers call. A collection is the list of its documents in natural order; a document
  carries its identifier in the field \<^verbatim>\<open>_id\<close>. Any operation throws when the store
  cannot be reached (\<open>online\<close> is false), and every operation issued is recorded in
  \<open>calls\<close>, so that a request that never reaches the store leaves the state as it was.
\<close>

datatype call =
    Find
  | FindOne nat
  | InsertOne obj
  | UpdateOne nat obj
  | DeleteOne nat

datatype exn = TransportError | DuplicateKey

record db =
  items :: "obj list"
  online :: bool
  calls :: "call list"

definition has_id :: "nat \<Rightarrow> obj \<Rightarrow> bool" where
  "has_id i d = (field d ''_id'' = JOid i)"

definition issue :: "call \<Rightarrow> db \<Rightarrow> db" where
  "issue c st = st\<lparr>calls := calls st @ [c]\<rparr>"

text \<open>\<^verbatim>\<open>find({}).toArray()\<close>: every document, in natural order.\<close>

definition find_all :: "db \<Rightarrow> (exn + obj list) \<times> db" where
  "find_all st =
     (if online st then (Inr (items st), issue Find st)
      else (Inl TransportError, issue Find st))"

text \<open>\<^verbatim>\<open>findOne({_id: i})\<close>: the document with that identifier, or \<^verbatim>\<open>null\<close>.\<close>

definition findOne :: "nat \<Rightarrow> db \<Rightarrow> (exn + obj option) \<times> db" where
  "findOne i st =
     (if online st then (Inr (find (has_id i) (items st)), issue (FindOne i) st)
      else (Inl TransportError, issue (FindOne i) st))"

text \<open>
  \<^verbatim>\<open>insertOne(doc)\<close>: the driver generates the identifier \<open>i\<close>; the store refuses an
  identifier that is already taken. The result is \<^verbatim>\<open>insertedId\<close>.
\<close>

definition insertOne :: "nat \<Rightarrow> obj \<Rightarrow> db \<Rightarrow> (exn + nat) \<times> db" where
  "insertOne i d st =
     (if \<not> online st then (Inl TransportError, issue (InsertOne d) st)
      else if \<exists>x \<in> set (items st). has_id i x then (Inl DuplicateKey, issue (InsertOne d) st)
      else (Inr i, issue (InsertOne d) (st\<lparr>items := items st @ [(''_id'', JOid i) # d]\<rparr>)))"

text \<open>\<^verbatim>\<open>$set\<close>: each listed field is overwritten where it stands, or added at the end.\<close>

definition set_fields :: "obj \<Rightarrow> obj \<Rightarrow> obj" where
  "set_fields fs d = fold (\<lambda>(k, v). AList.update k v) fs d"

fun update_first :: "nat \<Rightarrow> obj \<Rightarrow> obj list \<Rightarrow> obj list" where
  "update_first i fs [] = []"
| "update_first i fs (d # ds) =
     (if has_id i d then set_fields fs d # ds else d # update_first i fs ds)"

text \<open>\<^verbatim>\<open>updateOne({_id: i}, {$set: fs})\<close>: the result is \<^verbatim>\<open>matchedCount\<close>.\<close>

definition updateOne :: "nat \<Rightarrow> obj \<Rightarrow> db \<Rightarrow> (exn + nat) \<times> db" where
  "updateOne i fs st =
     (if \<not> online st then (Inl TransportError, issue (UpdateOne i fs) st)
      else (Inr (if \<exists>x \<in> set (items st). has_id i x then 1 else 0),
            issue (UpdateOne i fs) (st\<lparr>items := update_first i fs (items st)\<rparr>)))"

fun delete_first :: "nat \<Rightarrow> obj list \<Rightarrow> obj list" where
  "delete_first i [] = []"
| "delete_first i (d # ds) = (if has_id i d then ds else d # delete_first i ds)"

text \<open>\<^verbatim>\<open>deleteOne({_id: i})\<close>: the result is \<^verbatim>\<open>deletedCount\<close>.\<close>

definition deleteOne :: "nat \<Rightarrow> db \<Rightarrow> (exn + nat) \<times> db" where
  "deleteOne i st =
     (if \<not> online st then (Inl TransportError, issue (DeleteOne i) st)
      else (Inr (if \<exists>x \<in> set (items st). has_id i x then 1 else 0),
            issue (DeleteOne i) (st\<lparr>items := delete_first i (items st)\<rparr>)))"

section \<open>Resource handlers\<close>

text \<open>
  Each handler maps the request and the state of the store to the response and the new
  state. The value of every \<^verbatim>\<open>new Date()\<close> is an input, one per evaluation in the
  order of evaluation, and so is the identifier the driver generates for an insertion.
  The request body is a JSON object. An exception inside \<^verbatim>\<open>try\<close> ends in
  \<^verbatim>\<open>handleServerError\<close>.
\<close>

text \<open>\<^verbatim>\<open>GET /api/items\<close>; the handler never reads the query parameters \<open>q\<close>.\<close>

definition get_items :: "(string \<times> string) list \<Rightarrow> db \<Rightarrow> response \<times> db" where
  "get_items q st =
     (case find_all st of
        (Inl e, st') \<Rightarrow> (handleServerError, st')
      | (Inr found, st') \<Rightarrow>
          (reply 200 [(''count'', JNum (Fin (of_nat (length found)))),
                      (''items'', JArr (map JObj found))], st'))"

text \<open>\<^verbatim>\<open>GET /api/items/:id\<close>.\<close>

definition get_item :: "driver \<Rightarrow> string \<Rightarrow> db \<Rightarrow> response \<times> db" where
  "get_item drv ident st =
     (case validateId drv ident of
        Some r \<Rightarrow> (r, st)
      | None \<Rightarrow>
          (case findOne (ObjectId_new drv ident) st of
             (Inl e, st') \<Rightarrow> (handleServerError, st')
           | (Inr None, st') \<Rightarrow> (error_reply 404 ''Item not found'', st')
           | (Inr (Some item), st') \<Rightarrow> (\<lparr>status = 200, json = Some (JObj item)\<rparr>, st')))"

text \<open>The object literal \<^verbatim>\<open>{ name, price, category }\<close> handed to the validator.\<close>

definition required_of :: "obj \<Rightarrow> obj" where
  "required_of b =
     [(''name'', field b ''name''), (''price'', field b ''price''),
      (''category'', field b ''category'')]"

text \<open>\<^verbatim>\<open>POST /api/items\<close>: \<open>t1\<close> and \<open>t2\<close> are the two \<^verbatim>\<open>new Date()\<close> values,
  \<open>fresh\<close> the generated identifier.\<close>

definition post_items :: "int \<Rightarrow> int \<Rightarrow> nat \<Rightarrow> obj \<Rightarrow> db \<Rightarrow> response \<times> db" where
  "post_items t1 t2 fresh b st =
     (case validateRequiredFields (required_of b) of
        Some r \<Rightarrow> (r, st)
      | None \<Rightarrow>
          (case insertOne fresh
                  [(''name'', field b ''name''),
                   (''price'', field b ''price''),
                   (''category'', field b ''category''),
                   (''description'', nullish_or (field b ''description'') (JStr [])),
                   (''createdAt'', JDate t1),
                   (''updatedAt'', JDate t2)] st of
             (Inl e, st') \<Rightarrow> (handleServerError, st')
           | (Inr insertedId, st') \<Rightarrow>
               (reply 201 [(''message'', JStr ''Item created''), (''id'', JOid insertedId)],
                st')))"

text \<open>\<^verbatim>\<open>PUT /api/items/:id\<close>.\<close>

definition put_item :: "driver \<Rightarrow> int \<Rightarrow> string \<Rightarrow> obj \<Rightarrow> db \<Rightarrow> response \<times> db" where
  "put_item drv t ident b st =
     (case validateId drv ident of
        Some r \<Rightarrow> (r, st)
      | None \<Rightarrow>
          (case validateRequiredFields (required_of b) of
             Some r \<Rightarrow> (r, st)
           | None \<Rightarrow>
               (case updateOne (ObjectId_new drv ident)
                       [(''name'', field b ''name''),
                        (''price'', field b ''price''),
                        (''category'', field b ''category''),
                        (''description'', nullish_or (field b ''description'') (JStr [])),
                        (''updatedAt'', JDate t)] st of
                  (Inl e, st') \<Rightarrow> (handleServerError, st')
                | (Inr matchedCount, st') \<Rightarrow>
                    (if matchedCount = 0 then (error_reply 404 ''Item not found'', st')
                     else (reply 200 [(''message'', JStr ''Item fully updated'')], st')))))"

text \<open>\<^verbatim>\<open>PATCH /api/items/:id\<close>.\<close>

definition patch_item :: "driver \<Rightarrow> int \<Rightarrow> string \<Rightarrow> obj \<Rightarrow> db \<Rightarrow> response \<times> db" where
  "patch_item drv t ident b st =
     (case validateId drv ident of
        Some r \<Rightarrow> (r, st)
      | None \<Rightarrow>
          (case validatePatchFields b of
             Some r \<Rightarrow> (r, st)
           | None \<Rightarrow>
               (case updateOne (ObjectId_new drv ident)
                       (AList.update ''updatedAt'' (JDate t) b) st of
                  (Inl e, st') \<Rightarrow> (handleServerError, st')
                | (Inr matchedCount, st') \<Rightarrow>
                    (if matchedCount = 0 then (error_reply 404 ''Item not found'', st')
                     else (reply 200 [(''message'', JStr ''Item partially updated'')], st')))))"

text \<open>\<^verbatim>\<open>DELETE /api/items/:id\<close>.\<close>

definition delete_item :: "driver \<Rightarrow> string \<Rightarrow> db \<Rightarrow> response \<times> db" where
  "delete_item drv ident st =
     (case validateId drv ident of
        Some r \<Rightarrow> (r, st)
      | None \<Rightarrow>
          (case deleteOne (ObjectId_new drv ident) st of
             (Inl e, st') \<Rightarrow> (handleServerError, st')
           | (Inr deletedCount, st') \<Rightarrow>
               (if deletedCount = 0 then (error_reply 404 ''Item not found'', st')
                else (\<lparr>status = 204, json = None\<rparr>, st'))))"

section \<open>The legacy product listing\<close>

text \<open>
  The two older server files answer \<^verbatim>\<open>GET /api/products\<close> with the same handler. It
  reads four query parameters; each is taken to be given at most once and as a plain
  string, so \<^verbatim>\<open>req.query\<close> is a list of name and string. A parameter that is absent or
  empty is falsy.
\<close>

type_synonym query = "(string \<times> string) list"

text \<open>The terms of the store filter the handler writes: \<^verbatim>\<open>field: value\<close> and
  \<^verbatim>\<open>field: { $gte: number }\<close>.\<close>

datatype cond = Equals jsval | Gte jsnum

text \<open>\<^verbatim>\<open>s.split(",")\<close>.\<close>

fun split_on :: "char \<Rightarrow> string \<Rightarrow> string list" where
  "split_on sep [] = [[]]"
| "split_on sep (c # cs) =
     (if c = sep then [] # split_on sep cs
      else case split_on sep cs of w # ws \<Rightarrow> (c # w) # ws | [] \<Rightarrow> [[c]])"

definition truthy :: "string option \<Rightarrow> bool" where
  "truthy v = (case v of None \<Rightarrow> False | Some s \<Rightarrow> s \<noteq> [])"

definition str_of :: "string option \<Rightarrow> string" where
  "str_of v = (case v of None \<Rightarrow> [] | Some s \<Rightarrow> s)"

text \<open>
  The three objects the handler builds before it calls the store, under the names of its
  variables \<^verbatim>\<open>filter\<close>, \<^verbatim>\<open>sortOption\<close> and \<^verbatim>\<open>projection\<close>. \<^verbatim>\<open>Number\<close>, the
  conversion of a string to a number, is a parameter.
\<close>

definition filter_js :: "(string \<Rightarrow> jsnum) \<Rightarrow> query \<Rightarrow> (string \<times> cond) list" where
  "filter_js Number q =
     (let filter0 = [];
          filter1 = (if truthy (map_of q ''category'')
                     then AList.update ''category'' (Equals (JStr (str_of (map_of q ''category'')))) filter0
                     else filter0);
          filter2 = (if truthy (map_of q ''minPrice'')
                     then AList.update ''price'' (Gte (Number (str_of (map_of q ''minPrice'')))) filter1
                     else filter1)
      in filter2)"

definition sortOption :: "query \<Rightarrow> (string \<times> int) list" where
  "sortOption q = (if map_of q ''sort'' = Some ''price'' then [(''price'', 1)] else [])"

definition projection :: "query \<Rightarrow> (string \<times> nat) list" where
  "projection q =
     (if truthy (map_of q ''fields'')
      then fold (\<lambda>f p. AList.update f 1 p)
             (split_on (CHR '','') (str_of (map_of q ''fields'')))
             (AList.update ''_id'' 0 [])
      else [])"

text \<open>
  The store's side of \<^verbatim>\<open>find(filter, { projection }).sort(sortOption).toArray()\<close>, as
  MongoDB documents it. A \<^verbatim>\<open>$gte\<close> term holds of a number at least the bound, never of
  a value that is not a number; not-a-number is equal to itself and below every other
  number. A term holds of an array when it holds of one of its elements.
\<close>

fun num_gte :: "jsnum \<Rightarrow> jsnum \<Rightarrow> bool" where
  "num_gte NaN n = (n = NaN)"
| "num_gte m NaN = False"
| "num_gte PosInf n = True"
| "num_gte m NegInf = True"
| "num_gte NegInf n = False"
| "num_gte (Fin a) (Fin b) = (b \<le> a)"
| "num_gte (Fin a) PosInf = False"

fun holds :: "cond \<Rightarrow> jsval \<Rightarrow> bool" where
  "holds (Equals v) x = (x = v)"
| "holds (Gte n) (JNum m) = num_gte m n"
| "holds (Gte n) x = False"

definition satisfies :: "cond \<Rightarrow> jsval \<Rightarrow> bool" where
  "satisfies c x = (holds c x \<or> (case x of JArr es \<Rightarrow> list_ex (holds c) es | _ \<Rightarrow> False))"

definition matches :: "(string \<times> cond) list \<Rightarrow> obj \<Rightarrow> bool" where
  "matches flt d = list_all (\<lambda>(k, c). satisfies c (field d k)) flt"

text \<open>
  The ascending order of a sort: by type first (null or absent, numbers, strings, objects,
  arrays, identifiers, booleans, dates), then by value; an array counts as its least
  element, an empty array comes before everything. The store orders objects among
  themselves, and arrays nested in an array, by their contents; the key below does not
  tell these apart, and the model leaves documents with equal keys in their stored order.
\<close>

type_synonym sortkey = "nat \<times> nat \<times> rat \<times> string"

fun scalar_key :: "jsval \<Rightarrow> sortkey" where
  "scalar_key JUndefined = (2, 0, 0, [])"
| "scalar_key JNull = (2, 0, 0, [])"
| "scalar_key (JNum NaN) = (3, 0, 0, [])"
| "scalar_key (JNum NegInf) = (3, 1, 0, [])"
| "scalar_key (JNum (Fin r)) = (3, 2, r, [])"
| "scalar_key (JNum PosInf) = (3, 3, 0, [])"
| "scalar_key (JStr s) = (4, 0, 0, s)"
| "scalar_key (JObj ps) = (5, 0, 0, [])"
| "scalar_key (JArr es) = (6, 0, 0, [])"
| "scalar_key (JOid i) = (8, 0, of_nat i, [])"
| "scalar_key (JBool b) = (9, 0, (if b then 1 else 0), [])"
| "scalar_key (JDate t) = (10, 0, of_int t, [])"

fun sort_key_of :: "jsval \<Rightarrow> sortkey" where
  "sort_key_of (JArr []) = (1, 0, 0, [])"
| "sort_key_of (JArr (e # es)) = fold (\<lambda>x k. min (scalar_key x) k) es (scalar_key e)"
| "sort_key_of v = scalar_key v"

text \<open>
  An inclusion projection keeps the listed fields, and \<^verbatim>\<open>_id\<close> unless it is listed
  with 0; the empty projection keeps the document whole. The model covers projections of
  top-level fields: a name that is empty, holds a dot (a path into a subdocument), starts
  with a dollar sign or is \<^verbatim>\<open>__proto__\<close> (not an own property of the projection
  object) is outside it, as is a sort that is not ascending on one field.
\<close>

definition top_level_name :: "string \<Rightarrow> bool" where
  "top_level_name k =
     (k \<noteq> [] \<and> CHR ''.'' \<notin> set k \<and> take 1 k \<noteq> ''$'' \<and> k \<noteq> ''__proto__'')"

definition project :: "(string \<times> nat) list \<Rightarrow> obj \<Rightarrow> obj" where
  "project prj d =
     (if prj = [] then d
      else filter (\<lambda>(k, v). map_of prj k = Some 1
                           \<or> (k = ''_id'' \<and> map_of prj ''_id'' \<noteq> Some 0)) d)"

datatype find_error = Unreachable | OutsideModel

definition find_with ::
  "(string \<times> cond) list \<Rightarrow> (string \<times> nat) list \<Rightarrow> (string \<times> int) list \<Rightarrow> bool \<Rightarrow> obj list
     \<Rightarrow> find_error + obj list" where
  "find_with flt prj srt up docs =
     (if \<not> up then Inl Unreachable
      else if \<not> list_all top_level_name (map fst prj) then Inl OutsideModel
      else
        let hits = filter (matches flt) docs in
        case srt of
          [] \<Rightarrow> Inr (map (project prj) hits)
        | [(k, dir)] \<Rightarrow>
            if dir = 1 then Inr (map (project prj) (sort_key (\<lambda>d. sort_key_of (field d k)) hits))
            else Inl OutsideModel
        | _ \<Rightarrow> Inl OutsideModel)"

text \<open>
  The handler has no \<^verbatim>\<open>try\<close>: when the store call fails, the handler fails with it
  and writes no response (\<open>Inl\<close>). Otherwise it answers with \<^verbatim>\<open>res.json\<close>, status 200.
\<close>

record products_db =
  products :: "obj list"
  reachable :: bool

definition get_products ::
  "(string \<Rightarrow> jsnum) \<Rightarrow> query \<Rightarrow> products_db \<Rightarrow> find_error + response" where
  "get_products Number q st =
     (case find_with (filter_js Number q) (projection q) (sortOption q)
             (reachable st) (products st) of
        Inl e \<Rightarrow> Inl e
      | Inr found \<Rightarrow>
          Inr (reply 200 [(''count'', JNum (Fin (of_nat (length found)))),
                          (''products'', JArr (map JObj found))]))"

section \<open>Vocabulary of the properties\<close>

text \<open>"A finite number greater than or equal to zero".\<close>

fun spec_price_ok :: "jsval \<Rightarrow> bool" where
  "spec_price_ok (JNum (Fin r)) = (0 \<le> r)"
| "spec_price_ok v = False"

text \<open>
  A response names a field when its \<^verbatim>\<open>missing\<close> list contains the field, or its
  \<^verbatim>\<open>error\<close> message contains the field's name in quotes.
\<close>

fun occurs_in :: "string \<Rightarrow> string \<Rightarrow> bool" where
  "occurs_in w [] = (w = [])"
| "occurs_in w (c # cs) = (take (length w) (c # cs) = w \<or> occurs_in w cs)"

definition quoted :: "string \<Rightarrow> string" where
  "quoted f = CHR 0x27 # f @ [CHR 0x27]"

definition names_field :: "response \<Rightarrow> string \<Rightarrow> bool" where
  "names_field r f =
     (case json r of
        Some (JObj ob) \<Rightarrow>
          (case field ob ''missing'' of JArr xs \<Rightarrow> JStr f \<in> set xs | _ \<Rightarrow> False)
          \<or> (case field ob ''error'' of JStr m \<Rightarrow> occurs_in (quoted f) m | _ \<Rightarrow> False)
      | _ \<Rightarrow> False)"

text \<open>A field is type-invalid when its value fails the rule for the field: a string for
  \<^verbatim>\<open>name\<close> and \<^verbatim>\<open>category\<close>, the price test for \<^verbatim>\<open>price\<close>.\<close>

definition type_invalid :: "obj \<Rightarrow> string \<Rightarrow> bool" where
  "type_invalid b f =
     (if f = ''price'' then bad_price (field b f) else typeof (field b f) \<noteq> ''string'')"

text \<open>The input with every key outside the allowed four removed.\<close>

definition only_allowed :: "obj \<Rightarrow> obj" where
  "only_allowed b = filter (\<lambda>p. fst p \<in> set allowed) b"

text \<open>The query of the listing scenario, for a category \<open>X\<close>.\<close>

definition listing_query :: "string \<Rightarrow> query" where
  "listing_query X =
     [(''category'', X), (''minPrice'', ''10''), (''sort'', ''price''),
      (''fields'', ''name,price'')]"

section \<open>Fixtures\<close>

text \<open>
  A driver for the examples: an identifier string is well-formed when it is 24
  hexadecimal digits, and denotes the number they spell.
\<close>

definition hex_digit :: "char \<Rightarrow> nat option" where
  "hex_digit c =
     (let n = of_char c :: nat in
      if 48 \<le> n \<and> n \<le> 57 then Some (n - 48)
      else if 97 \<le> n \<and> n \<le> 102 then Some (n - 87)
      else if 65 \<le> n \<and> n \<le> 70 then Some (n - 55)
      else None)"

definition hex_driver :: driver where
  "hex_driver =
     \<lparr>ObjectId_isValid = (\<lambda>s. length s = 24 \<and> list_all (\<lambda>c. hex_digit c \<noteq> None) s),
      ObjectId_new = (\<lambda>s. fold (\<lambda>c n. 16 * n + (case hex_digit c of Some d \<Rightarrow> d | None \<Rightarrow> 0)) s 0)\<rparr>"

text \<open>An identifier, an empty store, a valid create input, and a store holding one item.\<close>

definition empty_shop :: db where
  "empty_shop = \<lparr>items = [], online = True, calls = []\<rparr>"

definition widget :: obj where
  "widget = [(''name'', JStr ''Widget''), (''price'', JNum (Fin (999 / 100))),
             (''category'', JStr ''tools'')]"

definition id_a1 :: string where
  "id_a1 = ''0000000000000000000000a1''"

definition widget_doc :: obj where
  "widget_doc =
     [(''_id'', JOid 161), (''name'', JStr ''Widget''), (''price'', JNum (Fin (999 / 100))),
      (''category'', JStr ''tools''), (''description'', JStr []),
      (''createdAt'', JDate 10), (''updatedAt'', JDate 10)]"

definition shop1 :: db where
  "shop1 = \<lparr>items = [widget_doc], online = True, calls = []\<rparr>"

text \<open>A string-to-number conversion for the examples: on a string of decimal digits it is
  the number they spell, as in JavaScript; elsewhere it is not-a-number.\<close>

definition digits_Number :: "string \<Rightarrow> jsnum" where
  "digits_Number s =
     (if s \<noteq> [] \<and> list_all (\<lambda>c. 48 \<le> (of_char c :: nat) \<and> (of_char c :: nat) \<le> 57) s
      then Fin (of_nat (fold (\<lambda>c n. 10 * n + (of_char c - 48)) s 0))
      else NaN)"

definition catalogue :: products_db where
  "catalogue =
     \<lparr>products =
        [[(''_id'', JOid 1), (''name'', JStr ''saw''), (''price'', JNum (Fin 30)),
          (''category'', JStr ''tools'')],
         [(''_id'', JOid 2), (''name'', JStr ''file''), (''price'', JNum (Fin 12)),
          (''category'', JStr ''tools'')],
         [(''_id'', JOid 3), (''name'', JStr ''nail''), (''price'', JNum (Fin 5)),
          (''category'', JStr ''tools'')],
         [(''_id'', JOid 4), (''name'', JStr ''kite''), (''price'', JNum (Fin 50)),
          (''category'', JStr ''toys'')]],
      reachable = True\<rparr>"

section \<open>Facts about the validators\<close>

lemma hex_driver_id_a1:
  "ObjectId_isValid hex_driver id_a1" "ObjectId_new hex_driver id_a1 = 161"
  by (simp_all add: hex_driver_def id_a1_def hex_digit_def)

lemma bad_price_iff: "\<not> bad_price p \<longleftrightarrow> (p = JNum PosInf \<or> spec_price_ok p)"
  by (cases p rule: lt_zero.cases) (auto simp: bad_price_def)

lemma filter_allowed_nil:
  "filter (\<lambda>k. k \<notin> set allowed) ks = [] \<longleftrightarrow> set ks \<subseteq> set allowed"
  by (auto simp: filter_empty_conv)

lemma field_required_of:
  "f \<in> set REQUIRED_FIELDS \<Longrightarrow> field (required_of b) f = field b f"
  by (auto simp: REQUIRED_FIELDS_def required_of_def field_def)

lemma is_missing_required_of:
  "f \<in> set REQUIRED_FIELDS \<Longrightarrow> is_missing (required_of b) f = is_missing b f"
  by (simp add: is_missing_def field_required_of)

lemma missing_required_of:
  "filter (is_missing (required_of b)) REQUIRED_FIELDS = filter (is_missing b) REQUIRED_FIELDS"
  by (rule filter_cong) (simp_all add: is_missing_required_of)

lemma validateRequiredFields_required_of:
  "validateRequiredFields (required_of b) = validateRequiredFields b"
proof -
  have "field (required_of b) ''name'' = field b ''name''"
    "field (required_of b) ''price'' = field b ''price''"
    "field (required_of b) ''category'' = field b ''category''"
    by (simp_all add: required_of_def field_def)
  then show ?thesis
    by (simp only: validateRequiredFields_def missing_required_of)
qed

lemma validateRequiredFields_status:
  "validateRequiredFields b = Some r \<Longrightarrow> status r = 400"
  by (auto simp: validateRequiredFields_def Let_def error_reply_def reply_def split: if_splits)

lemma validatePatchFields_status:
  "validatePatchFields b = Some r \<Longrightarrow> status r = 400"
  by (auto simp: validatePatchFields_def Let_def error_reply_def reply_def split: if_splits)

lemma required_bad_price:
  assumes "\<not> is_missing b ''price''" "bad_price (field b ''price'')"
  shows "validateRequiredFields b \<noteq> None"
  using assms by (auto simp: validateRequiredFields_def Let_def split: if_splits)

lemma required_ok_iff:
  "validateRequiredFields b = None \<longleftrightarrow>
     (\<forall>f \<in> set REQUIRED_FIELDS. \<not> is_missing b f)
     \<and> typeof (field b ''name'') = ''string'' \<and> typeof (field b ''category'') = ''string''
     \<and> \<not> bad_price (field b ''price'')"
  by (auto simp: validateRequiredFields_def Let_def filter_empty_conv)

lemma patch_ok_iff:
  "validatePatchFields b = None \<longleftrightarrow>
     b \<noteq> [] \<and> set (Object_keys b) \<subseteq> set allowed
     \<and> (field b ''name'' = JUndefined \<or> typeof (field b ''name'') = ''string'')
     \<and> (field b ''category'' = JUndefined \<or> typeof (field b ''category'') = ''string'')
     \<and> (field b ''price'' = JUndefined \<or> \<not> bad_price (field b ''price''))
     \<and> (field b ''description'' = JUndefined \<or> typeof (field b ''description'') = ''string'')"
  by (auto simp: validatePatchFields_def Let_def filter_empty_conv Object_keys_def)

lemma occurs_in_hd: "occurs_in (c # xs) m \<Longrightarrow> c \<in> set m"
  by (induction m) auto

lemma not_quoted_in_missing_msg: "\<not> occurs_in (quoted f) ''Missing required fields''"
proof
  assume "occurs_in (quoted f) ''Missing required fields''"
  then have "CHR 0x27 \<in> set ''Missing required fields''"
    unfolding quoted_def by (rule occurs_in_hd)
  then show False by simp
qed

lemma names_missing:
  "names_field (reply 400 [(''error'', JStr ''Missing required fields''),
                           (''missing'', JArr (map JStr ms))]) f \<longleftrightarrow> f \<in> set ms"
  using not_quoted_in_missing_msg [of f]
  by (auto simp: names_field_def reply_def field_def)

lemma names_type_error:
  "names_field (error_reply 400 ''Field 'name' must be a string'') ''name''"
  "\<not> names_field (error_reply 400 ''Field 'name' must be a string'') ''category''"
  "\<not> names_field (error_reply 400 ''Field 'name' must be a string'') ''price''"
  "\<not> names_field (error_reply 400 ''Field 'category' must be a string'') ''name''"
  "names_field (error_reply 400 ''Field 'category' must be a string'') ''category''"
  "\<not> names_field (error_reply 400 ''Field 'category' must be a string'') ''price''"
  "\<not> names_field (error_reply 400 ''Field 'price' must be a non-negative number'') ''name''"
  "\<not> names_field (error_reply 400 ''Field 'price' must be a non-negative number'') ''category''"
  "names_field (error_reply 400 ''Field 'price' must be a non-negative number'') ''price''"
  by (simp_all add: names_field_def error_reply_def reply_def field_def quoted_def)

section \<open>Facts about the store and the handlers\<close>

lemma field_Cons: "field ((k, v) # d) k' = (if k' = k then v else field d k')"
  by (simp add: field_def)

lemma field_update:
  "field (AList.update k v d) k' = (if k' = k then v else field d k')"
  by (simp add: field_def update_conv')

lemma field_set_fields_other:
  "k \<notin> fst ` set fs \<Longrightarrow> field (set_fields fs d) k = field d k"
  unfolding set_fields_def
  by (induction fs arbitrary: d) (auto simp: field_update)

lemma update_fresh_key:
  "k \<notin> fst ` set d \<Longrightarrow> AList.update k v d = d @ [(k, v)]"
  by (induction d) auto

lemma field_set_fields_last:
  "field (set_fields (fs @ [(k, v)]) d) k = v"
  by (simp add: set_fields_def field_update)

lemma has_id_set_fields:
  "''_id'' \<notin> fst ` set fs \<Longrightarrow> has_id i (set_fields fs d) = has_id i d"
  by (simp add: has_id_def field_set_fields_other)

lemma update_first_keeps:
  "k \<notin> fst ` set fs \<Longrightarrow>
     map (\<lambda>d. field d k) (update_first i fs ds) = map (\<lambda>d. field d k) ds"
  by (induction ds) (simp_all add: field_set_fields_other)

lemma update_first_hits:
  assumes "\<exists>x \<in> set ds. has_id i x" "''_id'' \<notin> fst ` set fs"
  shows "\<exists>d. find (has_id i) ds = Some d
           \<and> find (has_id i) (update_first i fs ds) = Some (set_fields fs d)"
  using assms by (induction ds) (auto simp: has_id_set_fields)

lemma delete_first_removes:
  "distinct (map (\<lambda>d. field d ''_id'') ds) \<Longrightarrow> \<not> (\<exists>x \<in> set (delete_first i ds). has_id i x)"
proof (induction ds)
  case Nil
  then show ?case by simp
next
  case (Cons d ds)
  show ?case
  proof (cases "has_id i d")
    case True
    with Cons.prems show ?thesis by (force simp: has_id_def image_iff)
  next
    case False
    with Cons show ?thesis by simp
  qed
qed

lemma find_snoc_fresh:
  "\<not> (\<exists>x \<in> set ds. P x) \<Longrightarrow> P d \<Longrightarrow> find P (ds @ [d]) = Some d"
  by (induction ds) auto

lemma patch_keys_allowed:
  "validatePatchFields b = None \<Longrightarrow> fst ` set b \<subseteq> set allowed"
  by (auto simp: validatePatchFields_def Let_def filter_empty_conv Object_keys_def
      split: if_splits)

lemma find_Some_mem: "find P xs = Some x \<Longrightarrow> x \<in> set xs \<and> P x"
  by (induction xs) (auto split: if_splits)

lemma put_item_success:
  assumes "put_item drv t ident b st = (r, st')" "status r = 200"
  shows "ObjectId_isValid drv ident \<and> validateRequiredFields (required_of b) = None
         \<and> online st \<and> (\<exists>x \<in> set (items st). has_id (ObjectId_new drv ident) x)
         \<and> items st' = update_first (ObjectId_new drv ident)
              [(''name'', field b ''name''),
               (''price'', field b ''price''),
               (''category'', field b ''category''),
               (''description'', nullish_or (field b ''description'') (JStr [])),
               (''updatedAt'', JDate t)] (items st)"
  using assms
  by (auto simp: put_item_def validateId_def updateOne_def issue_def error_reply_def reply_def
      handleServerError_def split: option.splits if_splits dest: validateRequiredFields_status)

lemma patch_item_success:
  assumes "patch_item drv t ident b st = (r, st')" "status r = 200"
  shows "ObjectId_isValid drv ident \<and> validatePatchFields b = None
         \<and> online st \<and> (\<exists>x \<in> set (items st). has_id (ObjectId_new drv ident) x)
         \<and> items st' = update_first (ObjectId_new drv ident)
              (AList.update ''updatedAt'' (JDate t) b) (items st)"
  using assms
  by (auto simp: patch_item_def validateId_def updateOne_def issue_def error_reply_def reply_def
      handleServerError_def split: option.splits if_splits dest: validatePatchFields_status)

lemma map_of_filter_key:
  "P k \<Longrightarrow> map_of (filter (\<lambda>p. P (fst p)) b) k = map_of b k"
  by (induction b) auto

lemma field_only_allowed:
  "k \<in> set allowed \<Longrightarrow> field (only_allowed b) k = field b k"
  unfolding field_def only_allowed_def
  by (simp add: map_of_filter_key [where P = "\<lambda>k. k \<in> set allowed"])

lemma required_of_only_allowed: "required_of (only_allowed b) = required_of b"
  by (simp add: required_of_def field_only_allowed allowed_def)

lemma post_items_success:
  assumes "post_items t1 t2 fresh b st = (r, st')" "status r = 201"
  shows "validateRequiredFields (required_of b) = None \<and> online st
         \<and> \<not> (\<exists>x \<in> set (items st). has_id fresh x)
         \<and> items st' = items st @
              [[(''_id'', JOid fresh),
                (''name'', field b ''name''),
                (''price'', field b ''price''),
                (''category'', field b ''category''),
                (''description'', nullish_or (field b ''description'') (JStr [])),
                (''createdAt'', JDate t1),
                (''updatedAt'', JDate t2)]]"
  using assms
  by (auto simp: post_items_def insertOne_def issue_def error_reply_def reply_def
      handleServerError_def split: option.splits if_splits dest: validateRequiredFields_status)

lemma post_items_ok:
  assumes "validateRequiredFields (required_of b) = None" "online st"
    "\<not> (\<exists>x \<in> set (items st). has_id fresh x)"
  shows "post_items t1 t2 fresh b st =
           (reply 201 [(''message'', JStr ''Item created''), (''id'', JOid fresh)],
            issue (InsertOne
                [(''name'', field b ''name''),
                 (''price'', field b ''price''),
                 (''category'', field b ''category''),
                 (''description'', nullish_or (field b ''description'') (JStr [])),
                 (''createdAt'', JDate t1),
                 (''updatedAt'', JDate t2)])
              (st\<lparr>items := items st @
                [[(''_id'', JOid fresh),
                  (''name'', field b ''name''),
                  (''price'', field b ''price''),
                  (''category'', field b ''category''),
                  (''description'', nullish_or (field b ''description'') (JStr [])),
                  (''createdAt'', JDate t1),
                  (''updatedAt'', JDate t2)]]\<rparr>))"
  using assms by (simp add: post_items_def insertOne_def)

lemma required_of_update_description:
  "required_of (AList.update ''description'' v b) = required_of b"
  by (simp add: required_of_def field_update)

lemma put_item_ok:
  assumes "ObjectId_isValid drv ident" "validateRequiredFields (required_of b) = None"
    "online st" "\<exists>x \<in> set (items st). has_id (ObjectId_new drv ident) x"
  shows "put_item drv t ident b st =
           (reply 200 [(''message'', JStr ''Item fully updated'')],
            issue (UpdateOne (ObjectId_new drv ident)
                [(''name'', field b ''name''),
                 (''price'', field b ''price''),
                 (''category'', field b ''category''),
                 (''description'', nullish_or (field b ''description'') (JStr [])),
                 (''updatedAt'', JDate t)])
              (st\<lparr>items := update_first (ObjectId_new drv ident)
                [(''name'', field b ''name''),
                 (''price'', field b ''price''),
                 (''category'', field b ''category''),
                 (''description'', nullish_or (field b ''description'') (JStr [])),
                 (''updatedAt'', JDate t)] (items st)\<rparr>))"
  using assms by (simp add: put_item_def validateId_def updateOne_def)

lemma widget_valid: "validateRequiredFields (required_of widget) = None"
  by (simp add: validateRequiredFields_def required_of_def widget_def field_Cons
      REQUIRED_FIELDS_def is_missing_def bad_price_def)

lemma shop1_facts:
  "online shop1" "items shop1 = [widget_doc]" "has_id 161 widget_doc"
  "distinct (map (\<lambda>d. field d ''_id'') (items shop1))"
  "online empty_shop" "items empty_shop = []"
  by (simp_all add: shop1_def empty_shop_def has_id_def widget_doc_def field_Cons)

text \<open>
  Identifiers are unique in the collection, and every handler keeps them so: the
  uniqueness that the second delete relies on holds in every state the handlers reach
  from the empty store.
\<close>

lemma delete_first_subset: "set (delete_first i ds) \<subseteq> set ds"
  by (induction ds) auto

lemma delete_first_distinct:
  "distinct (map f ds) \<Longrightarrow> distinct (map f (delete_first i ds))"
proof (induction ds)
  case Nil
  then show ?case by simp
next
  case (Cons d ds)
  then show ?case using delete_first_subset [of i ds] by auto
qed

lemma store_ids_stay_distinct:
  assumes "distinct (map (\<lambda>d. field d ''_id'') (items st))"
  shows "distinct (map (\<lambda>d. field d ''_id'') (items (snd (get_items q st))))"
    and "distinct (map (\<lambda>d. field d ''_id'') (items (snd (get_item drv ident st))))"
    and "distinct (map (\<lambda>d. field d ''_id'') (items (snd (post_items t1 t2 fresh b st))))"
    and "distinct (map (\<lambda>d. field d ''_id'') (items (snd (put_item drv t ident b st))))"
    and "distinct (map (\<lambda>d. field d ''_id'') (items (snd (patch_item drv t ident b st))))"
    and "distinct (map (\<lambda>d. field d ''_id'') (items (snd (delete_item drv ident st))))"
proof -
  show "distinct (map (\<lambda>d. field d ''_id'') (items (snd (get_items q st))))"
    using assms by (simp add: get_items_def find_all_def issue_def)
  show "distinct (map (\<lambda>d. field d ''_id'') (items (snd (get_item drv ident st))))"
    using assms
    by (simp add: get_item_def findOne_def issue_def split: option.splits)
  show "distinct (map (\<lambda>d. field d ''_id'') (items (snd (post_items t1 t2 fresh b st))))"
    using assms
    by (auto simp: post_items_def insertOne_def issue_def has_id_def field_Cons
        split: option.splits)
  show "distinct (map (\<lambda>d. field d ''_id'') (items (snd (put_item drv t ident b st))))"
    using assms
    by (simp add: put_item_def updateOne_def issue_def update_first_keeps
        split: option.splits)
  show "distinct (map (\<lambda>d. field d ''_id'') (items (snd (patch_item drv t ident b st))))"
  proof (cases "validatePatchFields b")
    case None
    then have "fst ` set b \<subseteq> set allowed" by (rule patch_keys_allowed)
    then have "''_id'' \<notin> fst ` set (AList.update ''updatedAt'' (JDate t) b)"
      by (auto simp: dom_update allowed_def)
    with assms None show ?thesis
      by (simp add: patch_item_def updateOne_def issue_def update_first_keeps
          split: option.splits)
  next
    case (Some r)
    with assms show ?thesis by (simp add: patch_item_def split: option.splits)
  qed
  show "distinct (map (\<lambda>d. field d ''_id'') (items (snd (delete_item drv ident st))))"
    using assms
    by (simp add: delete_item_def deleteOne_def issue_def delete_first_distinct
        split: option.splits)
qed

section \<open>Facts about the product listing\<close>

lemma digits_Number_10: "digits_Number ''10'' = Fin 10"
  by (simp add: digits_Number_def)

lemma listing_filter:
  "X \<noteq> [] \<Longrightarrow> Number ''10'' = Fin 10 \<Longrightarrow>
     filter_js Number (listing_query X)
       = [(''category'', Equals (JStr X)), (''price'', Gte (Fin 10))]"
  by (simp add: filter_js_def listing_query_def truthy_def str_of_def)

lemma listing_sort: "sortOption (listing_query X) = [(''price'', 1)]"
  by (simp add: sortOption_def listing_query_def)

lemma listing_projection:
  "projection (listing_query X) = [(''_id'', 0), (''name'', 1), (''price'', 1)]"
  by (simp add: projection_def listing_query_def truthy_def str_of_def)

lemma matches_two:
  "matches [(k1, c1), (k2, c2)] d \<longleftrightarrow> satisfies c1 (field d k1) \<and> satisfies c2 (field d k2)"
  by (simp add: matches_def)

lemma project_name_price_keys:
  "fst ` set (project [(''_id'', 0), (''name'', 1), (''price'', 1)] d) \<subseteq> {''name'', ''price''}"
  by (auto simp: project_def split: if_splits)

lemma map_of_filter_fst:
  "P k \<Longrightarrow> map_of (filter (\<lambda>(k, v). P k) d) k = map_of d k"
  by (induction d) auto

lemma project_name_price_price:
  "field (project [(''_id'', 0), (''name'', 1), (''price'', 1)] d) ''price'' = field d ''price''"
proof -
  have "map_of (filter (\<lambda>(k, v). k = ''name'' \<or> k = ''price'') d) ''price'' = map_of d ''price''"
    by (rule map_of_filter_fst) simp
  moreover have "project [(''_id'', 0), (''name'', 1), (''price'', 1)] d
                   = filter (\<lambda>(k, v). k = ''name'' \<or> k = ''price'') d"
    unfolding project_def by (auto intro!: filter_cong split: if_splits)
  ultimately show ?thesis by (simp add: field_def)
qed

lemma satisfies_Equals_plain:
  "(\<forall>es. v \<noteq> JArr es) \<Longrightarrow> satisfies (Equals (JStr X)) v \<longleftrightarrow> v = JStr X"
  by (cases v) (auto simp: satisfies_def)

lemma satisfies_Gte_plain:
  "(\<forall>es. v \<noteq> JArr es) \<Longrightarrow>
     satisfies (Gte (Fin 10)) v \<longleftrightarrow> v = JNum PosInf \<or> (\<exists>r. v = JNum (Fin r) \<and> 10 \<le> r)"
proof (cases v)
  case (JNum m)
  then show ?thesis by (cases m) (auto simp: satisfies_def)
qed (auto simp: satisfies_def)

lemma catalogue_listing:
  "get_products digits_Number (listing_query ''tools'') catalogue
     = Inr (reply 200
         [(''count'', JNum (Fin 2)),
          (''products'',
           JArr [JObj [(''name'', JStr ''file''), (''price'', JNum (Fin 12))],
                 JObj [(''name'', JStr ''saw''), (''price'', JNum (Fin 30))]])])"
proof -
  have t: "''tools'' \<noteq> []" by simp
  show ?thesis
    unfolding get_products_def listing_filter [of "''tools''" digits_Number, OF t digits_Number_10]
      listing_sort listing_projection
    by (simp add: find_with_def top_level_name_def catalogue_def matches_two field_Cons
        satisfies_def project_def)
qed

section \<open>Listing with filter, sort and projection\<close>

text \<open>
  Claim C1, as the specification states it, fails on \<^verbatim>\<open>GET /api/items\<close>: with the
  query category=toys, minPrice=10, sort=price, fields=name,price, a store holding one
  item of category tools and price 9.99 answers with that item, whole, identifier and
  timestamps included.
\<close>

theorem items_listing_ignores_query:
  "fst (get_items (listing_query ''toys'') shop1)
     = reply 200 [(''count'', JNum (Fin 1)), (''items'', JArr [JObj widget_doc])]
   \<and> field widget_doc ''category'' = JStr ''tools''
   \<and> field widget_doc ''price'' = JNum (Fin (999 / 100))
   \<and> Object_keys widget_doc = [''_id'', ''name'', ''price'', ''category'', ''description'',
                                ''createdAt'', ''updatedAt'']"
  by (simp add: get_items_def find_all_def shop1_facts)
     (simp add: widget_doc_def field_Cons Object_keys_def)

text \<open>
  Claim C1, amended. \<^verbatim>\<open>GET /api/items\<close> does not read the query: while the store is
  reachable it returns every stored item, whole and in stored order. The legacy
  \<^verbatim>\<open>GET /api/products\<close>, for category=X (not empty), minPrice=10, sort=price and
  fields=name,price, with the store reachable and \<^verbatim>\<open>Number("10")\<close> being 10, returns
  the stored products whose category matches X and whose price matches "at least 10",
  each of them once, in ascending order of price, each reduced to its fields name and
  price (no identifier, no other field). A category that is not an array matches when it
  is the string X, a price that is not an array when it is a number at least 10; an array
  matches when one of its elements does.
\<close>

theorem listing_filters_on_products_only:
  assumes "X \<noteq> []" and "Number ''10'' = Fin 10" and "reachable st"
  shows "(online db \<longrightarrow>
            fst (get_items (listing_query X) db)
              = reply 200 [(''count'', JNum (Fin (of_nat (length (items db))))),
                           (''items'', JArr (map JObj (items db)))])
         \<and> (\<exists>hits.
               mset hits
                 = mset (filter (\<lambda>d. satisfies (Equals (JStr X)) (field d ''category'')
                                    \<and> satisfies (Gte (Fin 10)) (field d ''price''))
                           (products st))
               \<and> sorted (map (\<lambda>d. sort_key_of (field d ''price'')) hits)
               \<and> get_products Number (listing_query X) st
                   = Inr (reply 200
                       [(''count'', JNum (Fin (of_nat (length hits)))),
                        (''products'',
                         JArr (map (\<lambda>d. JObj (project [(''_id'', 0), (''name'', 1), (''price'', 1)] d))
                                 hits))])
               \<and> (\<forall>d \<in> set hits.
                     fst ` set (project [(''_id'', 0), (''name'', 1), (''price'', 1)] d)
                       \<subseteq> {''name'', ''price''}
                     \<and> field (project [(''_id'', 0), (''name'', 1), (''price'', 1)] d) ''price''
                         = field d ''price''
                     \<and> ((\<forall>es. field d ''category'' \<noteq> JArr es) \<longrightarrow>
                           field d ''category'' = JStr X)
                     \<and> ((\<forall>es. field d ''price'' \<noteq> JArr es) \<longrightarrow>
                           field d ''price'' = JNum PosInf
                           \<or> (\<exists>r. field d ''price'' = JNum (Fin r) \<and> 10 \<le> r))))"
proof (intro conjI impI)
  assume "online db"
  then show "fst (get_items (listing_query X) db)
              = reply 200 [(''count'', JNum (Fin (of_nat (length (items db))))),
                           (''items'', JArr (map JObj (items db)))]"
    by (simp add: get_items_def find_all_def)
next
  let ?flt = "[(''category'', Equals (JStr X)), (''price'', Gte (Fin 10))]"
  let ?prj = "[(''_id'', 0), (''name'', 1), (''price'', 1)] :: (string \<times> nat) list"
  let ?P = "\<lambda>d. satisfies (Equals (JStr X)) (field d ''category'')
                \<and> satisfies (Gte (Fin 10)) (field d ''price'')"
  let ?hits = "sort_key (\<lambda>d. sort_key_of (field d ''price'')) (filter ?P (products st))"
  have m: "matches ?flt = ?P"
    by (rule ext) (simp add: matches_two)
  have 1: "mset ?hits = mset (filter ?P (products st))"
    by simp
  have 2: "sorted (map (\<lambda>d. sort_key_of (field d ''price'')) ?hits)"
    by (rule sorted_sort_key)
  have names: "list_all top_level_name (map fst ?prj)"
    by (simp add: top_level_name_def)
  have f: "find_with ?flt ?prj [(''price'', 1)] (reachable st) (products st)
             = Inr (map (project ?prj) ?hits)"
    using assms(3) names by (simp add: find_with_def m)
  have 3: "get_products Number (listing_query X) st
             = Inr (reply 200
                 [(''count'', JNum (Fin (of_nat (length ?hits)))),
                  (''products'', JArr (map (\<lambda>d. JObj (project ?prj d)) ?hits))])"
    unfolding get_products_def listing_filter [of X Number, OF assms(1,2)] listing_sort
      listing_projection f
    by (simp add: comp_def)
  have 4: "\<forall>d \<in> set ?hits.
             fst ` set (project ?prj d) \<subseteq> {''name'', ''price''}
             \<and> field (project ?prj d) ''price'' = field d ''price''
             \<and> ((\<forall>es. field d ''category'' \<noteq> JArr es) \<longrightarrow> field d ''category'' = JStr X)
             \<and> ((\<forall>es. field d ''price'' \<noteq> JArr es) \<longrightarrow>
                   field d ''price'' = JNum PosInf
                   \<or> (\<exists>r. field d ''price'' = JNum (Fin r) \<and> 10 \<le> r))"
    using project_name_price_keys project_name_price_price
      satisfies_Equals_plain satisfies_Gte_plain
    by (simp del: insert_subset) blast
  from 1 2 3 4 show "\<exists>hits.
               mset hits = mset (filter ?P (products st))
               \<and> sorted (map (\<lambda>d. sort_key_of (field d ''price'')) hits)
               \<and> get_products Number (listing_query X) st
                   = Inr (reply 200
                       [(''count'', JNum (Fin (of_nat (length hits)))),
                        (''products'', JArr (map (\<lambda>d. JObj (project ?prj d)) hits))])
               \<and> (\<forall>d \<in> set hits.
                     fst ` set (project ?prj d) \<subseteq> {''name'', ''price''}
                     \<and> field (project ?prj d) ''price'' = field d ''price''
                     \<and> ((\<forall>es. field d ''category'' \<noteq> JArr es) \<longrightarrow>
                           field d ''category'' = JStr X)
                     \<and> ((\<forall>es. field d ''price'' \<noteq> JArr es) \<longrightarrow>
                           field d ''price'' = JNum PosInf
                           \<or> (\<exists>r. field d ''price'' = JNum (Fin r) \<and> 10 \<le> r)))"
    by (intro exI [of _ ?hits] conjI)
qed

theorem listing_filters_on_products_only_witness:
  "''tools'' \<noteq> [] \<and> digits_Number ''10'' = Fin 10 \<and> reachable catalogue
   \<and> (\<exists>hits.
         mset hits
           = mset (filter (\<lambda>d. satisfies (Equals (JStr ''tools'')) (field d ''category'')
                              \<and> satisfies (Gte (Fin 10)) (field d ''price''))
                     (products catalogue))
         \<and> sorted (map (\<lambda>d. sort_key_of (field d ''price'')) hits)
         \<and> get_products digits_Number (listing_query ''tools'') catalogue
             = Inr (reply 200
                 [(''count'', JNum (Fin (of_nat (length hits)))),
                  (''products'',
                   JArr (map (\<lambda>d. JObj (project [(''_id'', 0), (''name'', 1), (''price'', 1)] d))
                           hits))]))
   \<and> get_products digits_Number (listing_query ''tools'') catalogue
       = Inr (reply 200
           [(''count'', JNum (Fin 2)),
            (''products'',
             JArr [JObj [(''name'', JStr ''file''), (''price'', JNum (Fin 12))],
                   JObj [(''name'', JStr ''saw''), (''price'', JNum (Fin 30))]])])"
proof -
  have h: "''tools'' \<noteq> []" "digits_Number ''10'' = Fin 10" "reachable catalogue"
    by (simp_all add: digits_Number_10 catalogue_def)
  from listing_filters_on_products_only [of "''tools''" digits_Number catalogue, OF h]
  have "\<exists>hits.
         mset hits
           = mset (filter (\<lambda>d. satisfies (Equals (JStr ''tools'')) (field d ''category'')
                              \<and> satisfies (Gte (Fin 10)) (field d ''price''))
                     (products catalogue))
         \<and> sorted (map (\<lambda>d. sort_key_of (field d ''price'')) hits)
         \<and> get_products digits_Number (listing_query ''tools'') catalogue
             = Inr (reply 200
                 [(''count'', JNum (Fin (of_nat (length hits)))),
                  (''products'',
                   JArr (map (\<lambda>d. JObj (project [(''_id'', 0), (''name'', 1), (''price'', 1)] d))
                           hits))])"
    by blast
  with h catalogue_listing show ?thesis by blast
qed

section \<open>Partial update: empty and unknown keys\<close>

text \<open>
  Claim C5. A partial-update input with no keys is answered with the 400 error "PATCH body
  cannot be empty"; an input with a key outside name, price, category and description is
  answered with the 400 error "Invalid fields in PATCH", whose \<^verbatim>\<open>invalid\<close> list is
  exactly the keys of the input outside that set, in the order of the input, and whose
  \<^verbatim>\<open>allowed\<close> list is the four allowed keys. With a well-formed identifier the
  handler sends the validator's response and does not touch the store.
\<close>

theorem patch_empty_and_unknown:
  "(b = [] \<longrightarrow> validatePatchFields b = Some (error_reply 400 ''PATCH body cannot be empty''))
   \<and> ((\<exists>k \<in> set (Object_keys b). k \<notin> {''name'', ''price'', ''category'', ''description''}) \<longrightarrow>
       validatePatchFields b =
         Some (reply 400
           [(''error'', JStr ''Invalid fields in PATCH''),
            (''invalid'', JArr (map JStr
               (filter (\<lambda>k. k \<notin> {''name'', ''price'', ''category'', ''description''})
                  (Object_keys b)))),
            (''allowed'', JArr [JStr ''name'', JStr ''price'', JStr ''category'',
                               JStr ''description''])]))
   \<and> (\<forall>r. ObjectId_isValid drv ident \<longrightarrow> validatePatchFields b = Some r \<longrightarrow>
          status r = 400 \<and> patch_item drv t ident b st = (r, st))"
proof (intro conjI impI allI)
  assume "b = []"
  then show "validatePatchFields b = Some (error_reply 400 ''PATCH body cannot be empty'')"
    by (simp add: validatePatchFields_def Object_keys_def)
next
  assume bad: "\<exists>k \<in> set (Object_keys b). k \<notin> {''name'', ''price'', ''category'', ''description''}"
  then have ne: "Object_keys b \<noteq> []" by auto
  from bad have "filter (\<lambda>k. k \<notin> set allowed) (Object_keys b) \<noteq> []"
    by (auto simp: filter_empty_conv allowed_def)
  with ne show "validatePatchFields b =
         Some (reply 400
           [(''error'', JStr ''Invalid fields in PATCH''),
            (''invalid'', JArr (map JStr
               (filter (\<lambda>k. k \<notin> {''name'', ''price'', ''category'', ''description''})
                  (Object_keys b)))),
            (''allowed'', JArr [JStr ''name'', JStr ''price'', JStr ''category'',
                               JStr ''description''])])"
    by (simp add: validatePatchFields_def Let_def allowed_def)
next
  fix r
  assume v: "ObjectId_isValid drv ident" and s: "validatePatchFields b = Some r"
  from s show "status r = 400"
    by (auto simp: validatePatchFields_def Let_def error_reply_def reply_def split: if_splits)
  from v s show "patch_item drv t ident b st = (r, st)"
    by (simp add: patch_item_def validateId_def)
qed

theorem patch_empty_and_unknown_witness:
  "validatePatchFields [] = Some (error_reply 400 ''PATCH body cannot be empty'')
   \<and> patch_item hex_driver 5 id_a1 [(''color'', JStr ''red''), (''price'', JNum (Fin 3))] empty_shop
       = (reply 400 [(''error'', JStr ''Invalid fields in PATCH''),
                     (''invalid'', JArr [JStr ''color'']),
                     (''allowed'', JArr [JStr ''name'', JStr ''price'', JStr ''category'',
                                        JStr ''description''])], empty_shop)"
proof -
  let ?b = "[(''color'', JStr ''red''), (''price'', JNum (Fin 3))]"
  note e = patch_empty_and_unknown [of "[]" hex_driver id_a1 5 empty_shop]
  note u = patch_empty_and_unknown [of ?b hex_driver id_a1 5 empty_shop]
  have k: "\<exists>k \<in> set (Object_keys ?b). k \<notin> {''name'', ''price'', ''category'', ''description''}"
    by (simp add: Object_keys_def)
  have f: "filter (\<lambda>k. k \<notin> {''name'', ''price'', ''category'', ''description''})
             (Object_keys ?b) = [''color'']"
    by (simp add: Object_keys_def)
  from e have 1: "validatePatchFields [] = Some (error_reply 400 ''PATCH body cannot be empty'')"
    by simp
  from u k have 2: "validatePatchFields ?b =
         Some (reply 400
           [(''error'', JStr ''Invalid fields in PATCH''),
            (''invalid'', JArr (map JStr
               (filter (\<lambda>k. k \<notin> {''name'', ''price'', ''category'', ''description''})
                  (Object_keys ?b)))),
            (''allowed'', JArr [JStr ''name'', JStr ''price'', JStr ''category'',
                               JStr ''description''])])"
    by blast
  from u hex_driver_id_a1(1) 2 have 3: "patch_item hex_driver 5 id_a1 ?b empty_shop =
      (reply 400
           [(''error'', JStr ''Invalid fields in PATCH''),
            (''invalid'', JArr (map JStr
               (filter (\<lambda>k. k \<notin> {''name'', ''price'', ''category'', ''description''})
                  (Object_keys ?b)))),
            (''allowed'', JArr [JStr ''name'', JStr ''price'', JStr ''category'',
                               JStr ''description''])], empty_shop)"
    by blast
  from 1 3 show ?thesis unfolding f by simp
qed

section \<open>The price rule\<close>

text \<open>
  Claim C2, as the specification states it, fails: positive infinity is not a finite
  number, yet a create with that price is answered 201 and a partial update with it passes
  validation.
\<close>

theorem infinite_price_accepted:
  "\<not> spec_price_ok (JNum PosInf)
   \<and> status (fst (post_items 0 0 1
         [(''name'', JStr ''Widget''), (''price'', JNum PosInf), (''category'', JStr ''tools'')]
         \<lparr>items = [], online = True, calls = []\<rparr>)) = 201
   \<and> validatePatchFields [(''price'', JNum PosInf)] = None"
  by (simp add: post_items_def validateRequiredFields_def required_of_def field_def
      REQUIRED_FIELDS_def is_missing_def bad_price_def insertOne_def issue_def reply_def
      validatePatchFields_def Object_keys_def allowed_def)

text \<open>
  Claim C2, amended. On create and full replace, with name and category present and
  strings and price present, validation succeeds exactly when price is a number that is
  neither not-a-number nor negative: a finite number at least zero, or positive infinity.
  Any other present price is answered 400 by create, replace and partial update, the
  store untouched; a partial update that passes validation with a price has such a price,
  and a partial update with a price whose other checks pass (only allowed keys; name,
  category and description each absent or a string) passes validation exactly for such a
  price.
\<close>

theorem price_accepted_iff_nonnegative_number:
  "(\<not> is_missing b ''price'' \<and> \<not> is_missing b ''name'' \<and> \<not> is_missing b ''category''
      \<and> typeof (field b ''name'') = ''string'' \<and> typeof (field b ''category'') = ''string'' \<longrightarrow>
      (validateRequiredFields (required_of b) = None \<longleftrightarrow>
         field b ''price'' = JNum PosInf \<or> spec_price_ok (field b ''price'')))
   \<and> (\<not> is_missing b ''price''
        \<and> \<not> (field b ''price'' = JNum PosInf \<or> spec_price_ok (field b ''price'')) \<longrightarrow>
        (\<exists>r. status r = 400 \<and> post_items t1 t2 fresh b st = (r, st)
              \<and> (ObjectId_isValid drv ident \<longrightarrow> put_item drv t ident b st = (r, st))))
   \<and> (field b ''price'' \<noteq> JUndefined \<longrightarrow>
        (validatePatchFields b = None \<longrightarrow>
           field b ''price'' = JNum PosInf \<or> spec_price_ok (field b ''price''))
        \<and> (\<not> (field b ''price'' = JNum PosInf \<or> spec_price_ok (field b ''price'')) \<longrightarrow>
             (\<exists>r. status r = 400 \<and> validatePatchFields b = Some r
                  \<and> (ObjectId_isValid drv ident \<longrightarrow> patch_item drv t ident b st = (r, st)))))
   \<and> (field b ''price'' \<noteq> JUndefined
        \<and> set (Object_keys b) \<subseteq> {''name'', ''price'', ''category'', ''description''}
        \<and> (field b ''name'' = JUndefined \<or> typeof (field b ''name'') = ''string'')
        \<and> (field b ''category'' = JUndefined \<or> typeof (field b ''category'') = ''string'')
        \<and> (field b ''description'' = JUndefined
             \<or> typeof (field b ''description'') = ''string'') \<longrightarrow>
        (validatePatchFields b = None \<longleftrightarrow>
           field b ''price'' = JNum PosInf \<or> spec_price_ok (field b ''price'')))"
proof (intro conjI impI)
  assume "\<not> is_missing b ''price'' \<and> \<not> is_missing b ''name'' \<and> \<not> is_missing b ''category''
      \<and> typeof (field b ''name'') = ''string'' \<and> typeof (field b ''category'') = ''string''"
  then show "validateRequiredFields (required_of b) = None \<longleftrightarrow>
         field b ''price'' = JNum PosInf \<or> spec_price_ok (field b ''price'')"
    by (simp add: validateRequiredFields_required_of required_ok_iff REQUIRED_FIELDS_def
        bad_price_iff)
next
  assume a: "\<not> is_missing b ''price''
        \<and> \<not> (field b ''price'' = JNum PosInf \<or> spec_price_ok (field b ''price''))"
  then have "validateRequiredFields b \<noteq> None"
    using required_bad_price bad_price_iff by blast
  then obtain r where r: "validateRequiredFields (required_of b) = Some r"
    by (auto simp: validateRequiredFields_required_of)
  then have "status r = 400" by (rule validateRequiredFields_status)
  moreover from r have "post_items t1 t2 fresh b st = (r, st)"
    by (simp add: post_items_def)
  moreover from r have "ObjectId_isValid drv ident \<longrightarrow> put_item drv t ident b st = (r, st)"
    by (simp add: put_item_def validateId_def)
  ultimately show "\<exists>r. status r = 400 \<and> post_items t1 t2 fresh b st = (r, st)
              \<and> (ObjectId_isValid drv ident \<longrightarrow> put_item drv t ident b st = (r, st))"
    by blast
next
  assume "field b ''price'' \<noteq> JUndefined" "validatePatchFields b = None"
  then show "field b ''price'' = JNum PosInf \<or> spec_price_ok (field b ''price'')"
    by (simp add: patch_ok_iff bad_price_iff)
next
  assume p: "field b ''price'' \<noteq> JUndefined"
    and n: "\<not> (field b ''price'' = JNum PosInf \<or> spec_price_ok (field b ''price''))"
  then have "validatePatchFields b \<noteq> None"
    by (simp add: patch_ok_iff bad_price_iff)
  then obtain r where r: "validatePatchFields b = Some r" by auto
  then have "status r = 400" by (rule validatePatchFields_status)
  moreover from r have "ObjectId_isValid drv ident \<longrightarrow> patch_item drv t ident b st = (r, st)"
    by (simp add: patch_item_def validateId_def)
  ultimately show "\<exists>r. status r = 400 \<and> validatePatchFields b = Some r
                  \<and> (ObjectId_isValid drv ident \<longrightarrow> patch_item drv t ident b st = (r, st))"
    using r by blast
next
  assume a: "field b ''price'' \<noteq> JUndefined
        \<and> set (Object_keys b) \<subseteq> {''name'', ''price'', ''category'', ''description''}
        \<and> (field b ''name'' = JUndefined \<or> typeof (field b ''name'') = ''string'')
        \<and> (field b ''category'' = JUndefined \<or> typeof (field b ''category'') = ''string'')
        \<and> (field b ''description'' = JUndefined
             \<or> typeof (field b ''description'') = ''string'')"
  then have ne: "b \<noteq> []" by (auto simp: field_def)
  from a have k: "set (Object_keys b) \<subseteq> set allowed" by (simp add: allowed_def)
  from a ne k show "validatePatchFields b = None \<longleftrightarrow>
           field b ''price'' = JNum PosInf \<or> spec_price_ok (field b ''price'')"
    by (simp add: patch_ok_iff bad_price_iff)
qed

theorem price_accepted_iff_nonnegative_number_witness:
  "validateRequiredFields (required_of widget) = None
   \<and> (\<exists>r. status r = 400
        \<and> post_items 1 2 7 (AList.update ''price'' (JNum (Fin (- 1))) widget) empty_shop
            = (r, empty_shop))
   \<and> (\<exists>r. status r = 400 \<and> validatePatchFields [(''price'', JNum NaN)] = Some r)
   \<and> validatePatchFields [(''price'', JNum PosInf)] = None
   \<and> validatePatchFields [(''name'', JStr ''Widget''), (''price'', JNum (Fin 5))] = None"
proof (intro conjI)
  show "validateRequiredFields (required_of widget) = None"
    using price_accepted_iff_nonnegative_number [of widget]
    by (simp add: widget_def is_missing_def field_def)
  have "\<exists>r. status r = 400
        \<and> post_items 1 2 7 (AList.update ''price'' (JNum (Fin (- 1))) widget) empty_shop
            = (r, empty_shop)
        \<and> (ObjectId_isValid hex_driver id_a1 \<longrightarrow>
             put_item hex_driver 3 id_a1 (AList.update ''price'' (JNum (Fin (- 1))) widget)
               empty_shop = (r, empty_shop))"
    using price_accepted_iff_nonnegative_number
      [of "AList.update ''price'' (JNum (Fin (- 1))) widget" 1 2 7 empty_shop hex_driver id_a1 3]
    by (simp add: widget_def is_missing_def field_def)
  then show "\<exists>r. status r = 400
        \<and> post_items 1 2 7 (AList.update ''price'' (JNum (Fin (- 1))) widget) empty_shop
            = (r, empty_shop)"
    by blast
  have "\<exists>r. status r = 400 \<and> validatePatchFields [(''price'', JNum NaN)] = Some r
        \<and> (ObjectId_isValid hex_driver id_a1 \<longrightarrow>
             patch_item hex_driver 3 id_a1 [(''price'', JNum NaN)] empty_shop = (r, empty_shop))"
    using price_accepted_iff_nonnegative_number
      [of "[(''price'', JNum NaN)]" 1 2 7 empty_shop hex_driver id_a1 3]
    by (simp add: field_def)
  then show "\<exists>r. status r = 400 \<and> validatePatchFields [(''price'', JNum NaN)] = Some r"
    by blast
  show "validatePatchFields [(''price'', JNum PosInf)] = None"
    using price_accepted_iff_nonnegative_number [of "[(''price'', JNum PosInf)]"]
    by (simp add: field_def Object_keys_def)
  show "validatePatchFields [(''name'', JStr ''Widget''), (''price'', JNum (Fin 5))] = None"
    using price_accepted_iff_nonnegative_number
      [of "[(''name'', JStr ''Widget''), (''price'', JNum (Fin 5))]"]
    by (simp add: field_def Object_keys_def)
qed

section \<open>Create and full replace: what the error body lists\<close>

text \<open>
  Claim C3, as the specification states it, fails: with name, price and category all
  present but all of the wrong type, the response names the field name only; the
  type-invalid category is not in it.
\<close>

theorem first_type_error_only:
  "validateRequiredFields
     [(''name'', JNum (Fin 1)), (''price'', JNum (Fin (- 1))), (''category'', JNum (Fin 2))]
     = Some (error_reply 400 ''Field 'name' must be a string'')
   \<and> type_invalid
       [(''name'', JNum (Fin 1)), (''price'', JNum (Fin (- 1))), (''category'', JNum (Fin 2))]
       ''category''
   \<and> \<not> names_field (error_reply 400 ''Field 'name' must be a string'') ''category''"
  by (simp add: validateRequiredFields_def REQUIRED_FIELDS_def is_missing_def field_def
      type_invalid_def names_field_def error_reply_def reply_def quoted_def)

text \<open>
  Claim C3, amended. A create or full-replace input that fails validation is answered
  400. When a required field is missing (undefined, null or the empty string), the body
  lists every missing required field, in the order name, price, category, and no other
  field. When none is missing, the body names one field only: the first of name (not a
  string), category (not a string) and price (fails the price test) that is invalid.
\<close>

theorem required_fields_error_body:
  "validateRequiredFields b = Some r \<Longrightarrow>
     status r = 400
     \<and> ((\<exists>f \<in> set REQUIRED_FIELDS. is_missing b f) \<longrightarrow>
          r = reply 400 [(''error'', JStr ''Missing required fields''),
                         (''missing'', JArr (map JStr (filter (is_missing b)
                                                [''name'', ''price'', ''category''])))]
          \<and> (\<forall>f \<in> set REQUIRED_FIELDS. names_field r f \<longleftrightarrow> is_missing b f))
     \<and> (\<not> (\<exists>f \<in> set REQUIRED_FIELDS. is_missing b f) \<longrightarrow>
          (names_field r ''name'' \<longleftrightarrow> typeof (field b ''name'') \<noteq> ''string'')
          \<and> (names_field r ''category'' \<longleftrightarrow>
               typeof (field b ''name'') = ''string''
               \<and> typeof (field b ''category'') \<noteq> ''string'')
          \<and> (names_field r ''price'' \<longleftrightarrow>
               typeof (field b ''name'') = ''string''
               \<and> typeof (field b ''category'') = ''string''
               \<and> bad_price (field b ''price'')))"
proof (intro conjI impI)
  assume s: "validateRequiredFields b = Some r"
  then show "status r = 400" by (rule validateRequiredFields_status)
  {
    assume m: "\<exists>f \<in> set REQUIRED_FIELDS. is_missing b f"
    then have ne: "filter (is_missing b) REQUIRED_FIELDS \<noteq> []"
      by (simp add: filter_empty_conv)
    with s show r: "r = reply 400 [(''error'', JStr ''Missing required fields''),
                         (''missing'', JArr (map JStr (filter (is_missing b)
                                                [''name'', ''price'', ''category''])))]"
      by (simp add: validateRequiredFields_def Let_def REQUIRED_FIELDS_def [symmetric])
    show "\<forall>f \<in> set REQUIRED_FIELDS. names_field r f \<longleftrightarrow> is_missing b f"
      unfolding r names_missing by (auto simp: REQUIRED_FIELDS_def)
  }
  {
    assume m: "\<not> (\<exists>f \<in> set REQUIRED_FIELDS. is_missing b f)"
    then have e: "filter (is_missing b) REQUIRED_FIELDS = []"
      by (simp add: filter_empty_conv)
    from s e show "names_field r ''name'' \<longleftrightarrow> typeof (field b ''name'') \<noteq> ''string''"
      by (auto simp: validateRequiredFields_def Let_def names_type_error split: if_splits)
    from s e show "names_field r ''category'' \<longleftrightarrow>
               typeof (field b ''name'') = ''string''
               \<and> typeof (field b ''category'') \<noteq> ''string''"
      by (auto simp: validateRequiredFields_def Let_def names_type_error split: if_splits)
    from s e show "names_field r ''price'' \<longleftrightarrow>
               typeof (field b ''name'') = ''string''
               \<and> typeof (field b ''category'') = ''string''
               \<and> bad_price (field b ''price'')"
      by (auto simp: validateRequiredFields_def Let_def names_type_error split: if_splits)
  }
qed

theorem required_fields_error_body_witness:
  "validateRequiredFields [(''name'', JNum (Fin 1)), (''price'', JStr [])]
     = Some (reply 400 [(''error'', JStr ''Missing required fields''),
                        (''missing'', JArr [JStr ''price'', JStr ''category''])])
   \<and> \<not> names_field (reply 400 [(''error'', JStr ''Missing required fields''),
                        (''missing'', JArr [JStr ''price'', JStr ''category''])]) ''name''"
proof -
  have v: "validateRequiredFields [(''name'', JNum (Fin 1)), (''price'', JStr [])]
     = Some (reply 400 [(''error'', JStr ''Missing required fields''),
                        (''missing'', JArr [JStr ''price'', JStr ''category''])])"
    by (simp add: validateRequiredFields_def REQUIRED_FIELDS_def is_missing_def field_def)
  show ?thesis
    using required_fields_error_body [OF v]
    by (simp add: v REQUIRED_FIELDS_def is_missing_def field_def)
qed

section \<open>Malformed identifiers\<close>

text \<open>
  Claim C6. A get, full-replace, partial-update or delete request whose path identifier
  is malformed is answered with status 400, and the state of the store, the record of the
  operations issued to it included, is what it was before the request: no store operation
  is issued.
\<close>

theorem malformed_id_short_circuits:
  "\<not> ObjectId_isValid drv ident \<Longrightarrow>
     get_item drv ident st = (error_reply 400 ''Invalid item id'', st)
   \<and> put_item drv t ident b st = (error_reply 400 ''Invalid item id'', st)
   \<and> patch_item drv t ident b st = (error_reply 400 ''Invalid item id'', st)
   \<and> delete_item drv ident st = (error_reply 400 ''Invalid item id'', st)
   \<and> status (error_reply 400 ''Invalid item id'') = 400"
  by (simp add: get_item_def put_item_def patch_item_def delete_item_def validateId_def
      error_reply_def reply_def)

theorem malformed_id_short_circuits_witness:
  "\<not> ObjectId_isValid hex_driver ''42''
   \<and> get_item hex_driver ''42'' \<lparr>items = [], online = True, calls = []\<rparr>
       = (error_reply 400 ''Invalid item id'', \<lparr>items = [], online = True, calls = []\<rparr>)
   \<and> delete_item hex_driver ''42'' \<lparr>items = [], online = True, calls = []\<rparr>
       = (error_reply 400 ''Invalid item id'', \<lparr>items = [], online = True, calls = []\<rparr>)"
  using malformed_id_short_circuits [of hex_driver "''42''" "\<lparr>items = [], online = True, calls = []\<rparr>"]
  by (simp add: hex_driver_def)

section \<open>What a created item holds\<close>

text \<open>
  Claim C4, as the specification states it, fails: a valid create input that also submits
  \<^verbatim>\<open>description: null\<close> and a key \<^verbatim>\<open>color\<close> is answered 201, and the document
  fetched by the returned identifier has the empty string as description and no field
  \<^verbatim>\<open>color\<close>, although both clock readings are the same.
\<close>

theorem created_item_drops_other_keys:
  "validateRequiredFields
     (required_of (widget @ [(''description'', JNull), (''color'', JStr ''red'')])) = None
   \<and> field (widget @ [(''description'', JNull), (''color'', JStr ''red'')]) ''color''
       = JStr ''red''
   \<and> field (widget @ [(''description'', JNull), (''color'', JStr ''red'')]) ''description''
       = JNull
   \<and> fst (post_items 10 10 161
            (widget @ [(''description'', JNull), (''color'', JStr ''red'')]) empty_shop)
       = reply 201 [(''message'', JStr ''Item created''), (''id'', JOid 161)]
   \<and> fst (get_item hex_driver id_a1
            (snd (post_items 10 10 161
                    (widget @ [(''description'', JNull), (''color'', JStr ''red'')])
                    empty_shop)))
       = \<lparr>status = 200, json = Some (JObj
            [(''_id'', JOid 161), (''name'', JStr ''Widget''),
             (''price'', JNum (Fin (999 / 100))), (''category'', JStr ''tools''),
             (''description'', JStr []), (''createdAt'', JDate 10),
             (''updatedAt'', JDate 10)])\<rparr>"
proof -
  let ?b = "widget @ [(''description'', JNull), (''color'', JStr ''red'')]"
  have r: "required_of ?b = required_of widget"
    by (simp add: required_of_def widget_def field_Cons)
  have f: "field ?b ''name'' = JStr ''Widget''" "field ?b ''price'' = JNum (Fin (999 / 100))"
    "field ?b ''category'' = JStr ''tools''" "field ?b ''description'' = JNull"
    "field ?b ''color'' = JStr ''red''"
    by (simp_all add: widget_def field_Cons)
  have v: "validateRequiredFields (required_of ?b) = None"
    by (simp only: r widget_valid)
  note p = post_items_ok [OF v shop1_facts(5), of 161 10 10]
  show ?thesis
    by (simp add: v p f shop1_facts get_item_def validateId_def findOne_def issue_def
        hex_driver_id_a1 has_id_def field_Cons nullish_or_def)
qed

text \<open>
  Claim C4, amended. For a valid create input, the store being reachable and the generated
  identifier unused, the response is 201 with that identifier, and the document fetched by
  it echoes the submitted name, price and category, and the submitted description unless
  that is absent or null, in which case the description is the empty string; the document
  has the fields \<^verbatim>\<open>_id\<close>, name, price, category, description, \<^verbatim>\<open>createdAt\<close> and
  \<^verbatim>\<open>updatedAt\<close> and no other.
\<close>

theorem created_item_echoes_item_fields:
  assumes "validateRequiredFields (required_of b) = None"
    and "online st"
    and "\<not> (\<exists>x \<in> set (items st). has_id fresh x)"
    and "ObjectId_isValid drv ident"
    and "ObjectId_new drv ident = fresh"
  shows "\<exists>st' d st''.
           post_items t1 t2 fresh b st
             = (reply 201 [(''message'', JStr ''Item created''), (''id'', JOid fresh)], st')
           \<and> get_item drv ident st' = (\<lparr>status = 200, json = Some (JObj d)\<rparr>, st'')
           \<and> field d ''name'' = field b ''name''
           \<and> field d ''price'' = field b ''price''
           \<and> field d ''category'' = field b ''category''
           \<and> field d ''description''
               = (if field b ''description'' = JUndefined \<or> field b ''description'' = JNull
                  then JStr [] else field b ''description'')
           \<and> Object_keys d = [''_id'', ''name'', ''price'', ''category'', ''description'',
                              ''createdAt'', ''updatedAt'']"
proof -
  let ?d = "[(''_id'', JOid fresh),
             (''name'', field b ''name''),
             (''price'', field b ''price''),
             (''category'', field b ''category''),
             (''description'', nullish_or (field b ''description'') (JStr [])),
             (''createdAt'', JDate t1),
             (''updatedAt'', JDate t2)]"
  let ?st' = "snd (post_items t1 t2 fresh b st)"
  note p = post_items_ok [OF assms(1-3), of t1 t2]
  have i: "items ?st' = items st @ [?d]" "online ?st'"
    using assms(2) by (simp_all add: p issue_def)
  have "has_id fresh ?d" by (simp add: has_id_def field_def)
  with assms(3) have f: "find (has_id fresh) (items ?st') = Some ?d"
    unfolding i by (rule find_snoc_fresh)
  have g: "get_item drv ident ?st'
             = (\<lparr>status = 200, json = Some (JObj ?d)\<rparr>, issue (FindOne fresh) ?st')"
    using assms(4,5) i(2) f by (simp add: get_item_def validateId_def findOne_def)
  have "field ?d ''name'' = field b ''name''" "field ?d ''price'' = field b ''price''"
    "field ?d ''category'' = field b ''category''"
    "field ?d ''description''
       = (if field b ''description'' = JUndefined \<or> field b ''description'' = JNull
          then JStr [] else field b ''description'')"
    "Object_keys ?d = [''_id'', ''name'', ''price'', ''category'', ''description'',
                       ''createdAt'', ''updatedAt'']"
    by (simp_all add: field_Cons nullish_or_def Object_keys_def)
  with g p show ?thesis by (metis snd_conv)
qed

theorem created_item_echoes_item_fields_witness:
  "validateRequiredFields (required_of widget) = None \<and> online empty_shop
   \<and> \<not> (\<exists>x \<in> set (items empty_shop). has_id 161 x)
   \<and> ObjectId_isValid hex_driver id_a1 \<and> ObjectId_new hex_driver id_a1 = 161
   \<and> (\<exists>st' d st''.
           post_items 10 11 161 widget empty_shop
             = (reply 201 [(''message'', JStr ''Item created''), (''id'', JOid 161)], st')
           \<and> get_item hex_driver id_a1 st' = (\<lparr>status = 200, json = Some (JObj d)\<rparr>, st'')
           \<and> field d ''name'' = JStr ''Widget''
           \<and> field d ''price'' = JNum (Fin (999 / 100))
           \<and> field d ''category'' = JStr ''tools''
           \<and> field d ''description'' = JStr [])"
proof -
  have h: "validateRequiredFields (required_of widget) = None" "online empty_shop"
    "\<not> (\<exists>x \<in> set (items empty_shop). has_id 161 x)"
    "ObjectId_isValid hex_driver id_a1" "ObjectId_new hex_driver id_a1 = 161"
    by (simp_all add: widget_valid shop1_facts hex_driver_id_a1)
  have w: "field widget ''name'' = JStr ''Widget''"
    "field widget ''price'' = JNum (Fin (999 / 100))"
    "field widget ''category'' = JStr ''tools''" "field widget ''description'' = JUndefined"
    by (simp_all add: widget_def field_def)
  from created_item_echoes_item_fields [OF h, of 10 11]
  have "\<exists>st' d st''.
           post_items 10 11 161 widget empty_shop
             = (reply 201 [(''message'', JStr ''Item created''), (''id'', JOid 161)], st')
           \<and> get_item hex_driver id_a1 st' = (\<lparr>status = 200, json = Some (JObj d)\<rparr>, st'')
           \<and> field d ''name'' = JStr ''Widget''
           \<and> field d ''price'' = JNum (Fin (999 / 100))
           \<and> field d ''category'' = JStr ''tools''
           \<and> field d ''description'' = JStr []"
    unfolding w by simp blast
  with h show ?thesis by blast
qed

text \<open>
  The two timestamps of a created item are two evaluations of \<^verbatim>\<open>new Date()\<close>: when the
  clock moves between them, \<^verbatim>\<open>createdAt\<close> and \<^verbatim>\<open>updatedAt\<close> differ.
\<close>

lemma created_item_timestamps_are_two_readings:
  "fst (get_item hex_driver id_a1 (snd (post_items 10 11 161 widget empty_shop)))
     = \<lparr>status = 200, json = Some (JObj
          [(''_id'', JOid 161), (''name'', JStr ''Widget''),
           (''price'', JNum (Fin (999 / 100))), (''category'', JStr ''tools''),
           (''description'', JStr []), (''createdAt'', JDate 10),
           (''updatedAt'', JDate 11)])\<rparr>"
proof -
  have f: "field widget ''name'' = JStr ''Widget''"
    "field widget ''price'' = JNum (Fin (999 / 100))"
    "field widget ''category'' = JStr ''tools''" "field widget ''description'' = JUndefined"
    by (simp_all add: widget_def field_Cons field_def)
  note p = post_items_ok [OF widget_valid shop1_facts(5), of 161 10 11]
  show ?thesis
    by (simp add: p f shop1_facts get_item_def validateId_def findOne_def issue_def
        hex_driver_id_a1 has_id_def field_Cons nullish_or_def)
qed

section \<open>Replace and partial update leave the creation time alone\<close>

text \<open>
  Claim C7. A full replace or a partial update that succeeds (status 200) leaves the
  \<^verbatim>\<open>createdAt\<close> field of every stored item as it was; of the two timestamp fields
  only \<^verbatim>\<open>updatedAt\<close> is written, and the item addressed carries the new value.
\<close>

theorem replace_and_patch_keep_createdAt:
  "(put_item drv t ident b st = (r, st') \<or> patch_item drv t ident b st = (r, st'))
   \<and> status r = 200 \<Longrightarrow>
     map (\<lambda>d. field d ''createdAt'') (items st') = map (\<lambda>d. field d ''createdAt'') (items st)
     \<and> (\<exists>d. find (has_id (ObjectId_new drv ident)) (items st') = Some d
             \<and> field d ''updatedAt'' = JDate t)"
proof -
  assume a: "(put_item drv t ident b st = (r, st') \<or> patch_item drv t ident b st = (r, st'))
   \<and> status r = 200"
  let ?i = "ObjectId_new drv ident"
  let ?put = "[(''name'', field b ''name''),
               (''price'', field b ''price''),
               (''category'', field b ''category''),
               (''description'', nullish_or (field b ''description'') (JStr []))]"
  from a consider
    (put) "put_item drv t ident b st = (r, st')" | (patch) "patch_item drv t ident b st = (r, st')"
    by blast
  then obtain fs where ex: "\<exists>x \<in> set (items st). has_id ?i x"
    and st': "items st' = update_first ?i (fs @ [(''updatedAt'', JDate t)]) (items st)"
    and keys: "fst ` set fs \<subseteq> set allowed"
  proof cases
    case put
    from put_item_success [OF put] a
    have "\<exists>x \<in> set (items st). has_id ?i x"
      "items st' = update_first ?i (?put @ [(''updatedAt'', JDate t)]) (items st)"
      by simp_all
    moreover have "fst ` set ?put \<subseteq> set allowed" by (simp add: allowed_def)
    ultimately show ?thesis by (rule that)
  next
    case patch
    from patch_item_success [OF patch] a
    have v: "validatePatchFields b = None" and x: "\<exists>x \<in> set (items st). has_id ?i x"
      and i: "items st' = update_first ?i (AList.update ''updatedAt'' (JDate t) b) (items st)"
      by simp_all
    from v have k: "fst ` set b \<subseteq> set allowed" by (rule patch_keys_allowed)
    then have "''updatedAt'' \<notin> fst ` set b" by (auto simp: allowed_def)
    then have "AList.update ''updatedAt'' (JDate t) b = b @ [(''updatedAt'', JDate t)]"
      by (rule update_fresh_key)
    with i have "items st' = update_first ?i (b @ [(''updatedAt'', JDate t)]) (items st)"
      by simp
    with x show ?thesis using k by (rule that)
  qed
  let ?fs = "fs @ [(''updatedAt'', JDate t)]"
  from keys have c: "''createdAt'' \<notin> fst ` set ?fs" and n: "''_id'' \<notin> fst ` set ?fs"
    by (auto simp: allowed_def)
  from c have "map (\<lambda>d. field d ''createdAt'') (items st')
                 = map (\<lambda>d. field d ''createdAt'') (items st)"
    unfolding st' by (rule update_first_keeps)
  moreover from update_first_hits [OF ex n]
  have "\<exists>d. find (has_id ?i) (items st') = Some d \<and> field d ''updatedAt'' = JDate t"
    unfolding st' by (auto simp: field_set_fields_last)
  ultimately show ?thesis by blast
qed

theorem replace_and_patch_keep_createdAt_witness:
  "status (fst (put_item hex_driver 20 id_a1 widget shop1)) = 200
   \<and> map (\<lambda>d. field d ''createdAt'') (items (snd (put_item hex_driver 20 id_a1 widget shop1)))
       = [JDate 10]
   \<and> (\<exists>d. find (has_id 161) (items (snd (put_item hex_driver 20 id_a1 widget shop1))) = Some d
          \<and> field d ''updatedAt'' = JDate 20)"
proof -
  let ?r = "reply 200 [(''message'', JStr ''Item fully updated'')]"
  let ?st' = "snd (put_item hex_driver 20 id_a1 widget shop1)"
  have f: "fst (put_item hex_driver 20 id_a1 widget shop1) = ?r"
    using put_item_ok [of hex_driver id_a1 widget shop1 20]
    by (simp add: hex_driver_id_a1 widget_valid shop1_facts)
  have s: "status ?r = 200"
    by (simp add: reply_def)
  have ok: "(put_item hex_driver 20 id_a1 widget shop1 = (?r, ?st')
             \<or> patch_item hex_driver 20 id_a1 widget shop1 = (?r, ?st'))
            \<and> status ?r = 200"
    using f s by (metis prod.collapse)
  have c: "map (\<lambda>d. field d ''createdAt'') (items shop1) = [JDate 10]"
    by (simp add: shop1_facts widget_doc_def field_Cons)
  from replace_and_patch_keep_createdAt [OF ok] f s c show ?thesis
    by (simp add: hex_driver_id_a1)
qed

section \<open>Deleting twice\<close>

text \<open>
  Claim C8. While the store is reachable and identifiers are unique in the collection,
  deleting an existing item by a well-formed identifier is answered 204 with no body, and
  deleting the same identifier again at once is answered 404.
\<close>

theorem delete_twice:
  assumes "ObjectId_isValid drv ident"
    and "online st"
    and "\<exists>x \<in> set (items st). has_id (ObjectId_new drv ident) x"
    and "distinct (map (\<lambda>d. field d ''_id'') (items st))"
  shows "fst (delete_item drv ident st) = \<lparr>status = 204, json = None\<rparr>
         \<and> fst (delete_item drv ident (snd (delete_item drv ident st)))
             = error_reply 404 ''Item not found''"
proof -
  let ?i = "ObjectId_new drv ident"
  let ?st1 = "issue (DeleteOne ?i) (st\<lparr>items := delete_first ?i (items st)\<rparr>)"
  from assms have 1: "delete_item drv ident st = (\<lparr>status = 204, json = None\<rparr>, ?st1)"
    by (simp add: delete_item_def validateId_def deleteOne_def)
  from assms(4) have "\<not> (\<exists>x \<in> set (items ?st1). has_id ?i x)"
    using delete_first_removes [of "items st" ?i] by (simp add: issue_def)
  moreover from assms(2) have "online ?st1" by (simp add: issue_def)
  ultimately have "fst (delete_item drv ident ?st1) = error_reply 404 ''Item not found''"
    using assms(1) by (simp add: delete_item_def validateId_def deleteOne_def)
  with 1 show ?thesis by simp
qed

theorem delete_twice_witness:
  "ObjectId_isValid hex_driver id_a1 \<and> online shop1
   \<and> (\<exists>x \<in> set (items shop1). has_id (ObjectId_new hex_driver id_a1) x)
   \<and> distinct (map (\<lambda>d. field d ''_id'') (items shop1))
   \<and> fst (delete_item hex_driver id_a1 shop1) = \<lparr>status = 204, json = None\<rparr>
   \<and> fst (delete_item hex_driver id_a1 (snd (delete_item hex_driver id_a1 shop1)))
       = error_reply 404 ''Item not found''"
proof -
  have h: "ObjectId_isValid hex_driver id_a1" "online shop1"
    "\<exists>x \<in> set (items shop1). has_id (ObjectId_new hex_driver id_a1) x"
    "distinct (map (\<lambda>d. field d ''_id'') (items shop1))"
    by (simp_all add: hex_driver_id_a1 shop1_facts)
  from h delete_twice [OF h] show ?thesis by simp
qed

section \<open>The description field\<close>

text \<open>
  Claim C9. Create and full replace never look at the type of \<^verbatim>\<open>description\<close>:
  validation gives the same verdict whatever value the field has, and when the required
  fields pass, the request succeeds (the store being reachable, and the generated
  identifier unused for create, the identifier well-formed and the item present for
  replace) and the value is stored as it is, the empty string standing in for an absent or
  null one. Partial update answers a present description that is not a string with 400,
  the store untouched.
\<close>

theorem description_checked_by_patch_only:
  "validateRequiredFields (required_of (AList.update ''description'' v b))
     = validateRequiredFields (required_of b)
   \<and> (validateRequiredFields (required_of b) = None \<and> online st
        \<and> \<not> (\<exists>x \<in> set (items st). has_id fresh x) \<longrightarrow>
        status (fst (post_items t1 t2 fresh (AList.update ''description'' v b) st)) = 201
        \<and> field (last (items (snd (post_items t1 t2 fresh
                    (AList.update ''description'' v b) st)))) ''description''
            = (if v = JUndefined \<or> v = JNull then JStr [] else v))
   \<and> (validateRequiredFields (required_of b) = None \<and> online st
        \<and> ObjectId_isValid drv ident
        \<and> (\<exists>x \<in> set (items st). has_id (ObjectId_new drv ident) x) \<longrightarrow>
        status (fst (put_item drv t ident (AList.update ''description'' v b) st)) = 200
        \<and> (\<exists>d. find (has_id (ObjectId_new drv ident))
                   (items (snd (put_item drv t ident (AList.update ''description'' v b) st)))
                 = Some d
               \<and> field d ''description'' = (if v = JUndefined \<or> v = JNull then JStr [] else v)))
   \<and> (v \<noteq> JUndefined \<and> typeof v \<noteq> ''string'' \<longrightarrow>
        status (fst (patch_item drv t ident (AList.update ''description'' v b) st)) = 400
        \<and> snd (patch_item drv t ident (AList.update ''description'' v b) st) = st)"
proof (intro conjI impI)
  let ?b = "AList.update ''description'' v b"
  let ?i = "ObjectId_new drv ident"
  show "validateRequiredFields (required_of ?b) = validateRequiredFields (required_of b)"
    by (simp add: required_of_update_description)
  {
    assume a: "validateRequiredFields (required_of b) = None \<and> online st
        \<and> \<not> (\<exists>x \<in> set (items st). has_id fresh x)"
    then have p: "validateRequiredFields (required_of ?b) = None" "online st"
      "\<not> (\<exists>x \<in> set (items st). has_id fresh x)"
      by (simp_all add: required_of_update_description)
    show "status (fst (post_items t1 t2 fresh ?b st)) = 201"
      by (simp add: post_items_ok [OF p] reply_def)
    show "field (last (items (snd (post_items t1 t2 fresh ?b st)))) ''description''
            = (if v = JUndefined \<or> v = JNull then JStr [] else v)"
      by (simp add: post_items_ok [OF p] issue_def field_def nullish_or_def update_conv')
  }
  {
    assume a: "validateRequiredFields (required_of b) = None \<and> online st
        \<and> ObjectId_isValid drv ident
        \<and> (\<exists>x \<in> set (items st). has_id ?i x)"
    then have p: "ObjectId_isValid drv ident" "validateRequiredFields (required_of ?b) = None"
      "online st" "\<exists>x \<in> set (items st). has_id ?i x"
      by (simp_all add: required_of_update_description)
    show "status (fst (put_item drv t ident ?b st)) = 200"
      by (simp add: put_item_ok [OF p] reply_def)
    let ?fs = "[(''name'', field ?b ''name''),
                 (''price'', field ?b ''price''),
                 (''category'', field ?b ''category''),
                 (''description'', nullish_or (field ?b ''description'') (JStr [])),
                 (''updatedAt'', JDate t)]"
    have n: "''_id'' \<notin> fst ` set ?fs" by simp
    from update_first_hits [OF p(4) n]
    obtain d where d: "find (has_id ?i) (update_first ?i ?fs (items st)) = Some (set_fields ?fs d)"
      by blast
    have "field (set_fields ?fs d) ''description''
            = (if v = JUndefined \<or> v = JNull then JStr [] else v)"
      by (simp add: set_fields_def field_update nullish_or_def)
    with d show "\<exists>d. find (has_id ?i) (items (snd (put_item drv t ident ?b st))) = Some d
               \<and> field d ''description'' = (if v = JUndefined \<or> v = JNull then JStr [] else v)"
      by (simp add: put_item_ok [OF p] issue_def)
  }
  {
    assume a: "v \<noteq> JUndefined \<and> typeof v \<noteq> ''string''"
    then have "validatePatchFields ?b \<noteq> None"
      by (simp add: patch_ok_iff field_update)
    then obtain r where r: "validatePatchFields ?b = Some r" by auto
    then have "status r = 400" by (rule validatePatchFields_status)
    with r show "status (fst (patch_item drv t ident ?b st)) = 400"
      by (simp add: patch_item_def validateId_def error_reply_def reply_def)
    from r show "snd (patch_item drv t ident ?b st) = st"
      by (simp add: patch_item_def validateId_def)
  }
qed

theorem description_checked_by_patch_only_witness:
  "validateRequiredFields (required_of widget) = None \<and> online empty_shop
   \<and> status (fst (post_items 1 2 161 (AList.update ''description'' (JNum (Fin 5)) widget)
                  empty_shop)) = 201
   \<and> field (last (items (snd (post_items 1 2 161
               (AList.update ''description'' (JNum (Fin 5)) widget) empty_shop))))
       ''description'' = JNum (Fin 5)
   \<and> status (fst (put_item hex_driver 3 id_a1 (AList.update ''description'' JNull widget)
                  shop1)) = 200
   \<and> status (fst (patch_item hex_driver 3 id_a1
                  (AList.update ''description'' (JNum (Fin 5)) widget) shop1)) = 400
   \<and> snd (patch_item hex_driver 3 id_a1
            (AList.update ''description'' (JNum (Fin 5)) widget) shop1) = shop1"
  using description_checked_by_patch_only
      [of "JNum (Fin 5)" widget empty_shop 161 1 2 hex_driver id_a1 3]
    description_checked_by_patch_only [of JNull widget shop1 161 1 2 hex_driver id_a1 3]
    description_checked_by_patch_only [of "JNum (Fin 5)" widget shop1 161 1 2 hex_driver id_a1 3]
  by (simp add: widget_valid shop1_facts hex_driver_id_a1)

section \<open>Keys outside the item's fields\<close>

text \<open>
  Claim C10. Create and full replace do to the store and answer exactly what they would
  for the input stripped of every key outside name, price, category and description: such
  keys cause no error and are not persisted (a created document has the seven fields
  \<^verbatim>\<open>_id\<close>, name, price, category, description, \<^verbatim>\<open>createdAt\<close>, \<^verbatim>\<open>updatedAt\<close>;
  a replace sets name, price, category, description and \<^verbatim>\<open>updatedAt\<close>). Partial update
  answers an input with such a key with 400, the store untouched.
\<close>

theorem other_keys_ignored_on_create_and_replace:
  "post_items t1 t2 fresh b st = post_items t1 t2 fresh (only_allowed b) st
   \<and> put_item drv t ident b st = put_item drv t ident (only_allowed b) st
   \<and> (\<forall>r st'. post_items t1 t2 fresh b st = (r, st') \<and> status r = 201 \<longrightarrow>
         (\<exists>d. items st' = items st @ [d]
              \<and> Object_keys d = [''_id'', ''name'', ''price'', ''category'', ''description'',
                                 ''createdAt'', ''updatedAt'']))
   \<and> (\<forall>r st'. put_item drv t ident b st = (r, st') \<and> status r = 200 \<longrightarrow>
         (\<exists>fs. calls st' = calls st @ [UpdateOne (ObjectId_new drv ident) fs]
              \<and> Object_keys fs = [''name'', ''price'', ''category'', ''description'',
                                  ''updatedAt'']))
   \<and> ((\<exists>k \<in> set (Object_keys b). k \<notin> {''name'', ''price'', ''category'', ''description''}) \<longrightarrow>
         status (fst (patch_item drv t ident b st)) = 400
         \<and> snd (patch_item drv t ident b st) = st)"
proof (intro conjI allI impI)
  show "post_items t1 t2 fresh b st = post_items t1 t2 fresh (only_allowed b) st"
    by (simp add: post_items_def required_of_only_allowed field_only_allowed allowed_def
        cong: option.case_cong)
  show "put_item drv t ident b st = put_item drv t ident (only_allowed b) st"
    by (simp add: put_item_def required_of_only_allowed field_only_allowed allowed_def
        cong: option.case_cong)
next
  fix r st'
  assume "post_items t1 t2 fresh b st = (r, st') \<and> status r = 201"
  then show "\<exists>d. items st' = items st @ [d]
              \<and> Object_keys d = [''_id'', ''name'', ''price'', ''category'', ''description'',
                                 ''createdAt'', ''updatedAt'']"
    using post_items_success [of t1 t2 fresh b st r st'] by (simp add: Object_keys_def)
next
  fix r st'
  assume "put_item drv t ident b st = (r, st') \<and> status r = 200"
  then show "\<exists>fs. calls st' = calls st @ [UpdateOne (ObjectId_new drv ident) fs]
              \<and> Object_keys fs = [''name'', ''price'', ''category'', ''description'',
                                  ''updatedAt'']"
    by (auto simp: put_item_def validateId_def updateOne_def issue_def error_reply_def
        reply_def handleServerError_def Object_keys_def
        split: option.splits if_splits dest: validateRequiredFields_status)
next
  assume k: "\<exists>k \<in> set (Object_keys b). k \<notin> {''name'', ''price'', ''category'', ''description''}"
  then have "validatePatchFields b \<noteq> None"
    by (auto simp: patch_ok_iff allowed_def)
  then obtain r where r: "validatePatchFields b = Some r" by auto
  then have "status r = 400" by (rule validatePatchFields_status)
  with r show "status (fst (patch_item drv t ident b st)) = 400"
    by (simp add: patch_item_def validateId_def error_reply_def reply_def)
  from r show "snd (patch_item drv t ident b st) = st"
    by (simp add: patch_item_def validateId_def)
qed

theorem other_keys_ignored_on_create_and_replace_witness:
  "post_items 1 2 161 (widget @ [(''color'', JStr ''red'')]) empty_shop
     = post_items 1 2 161 widget empty_shop
   \<and> put_item hex_driver 3 id_a1 (widget @ [(''color'', JStr ''red'')]) shop1
       = put_item hex_driver 3 id_a1 widget shop1
   \<and> status (fst (patch_item hex_driver 3 id_a1 [(''color'', JStr ''red'')] shop1)) = 400
   \<and> snd (patch_item hex_driver 3 id_a1 [(''color'', JStr ''red'')] shop1) = shop1"
proof -
  have o: "only_allowed (widget @ [(''color'', JStr ''red'')]) = widget"
    by (simp add: only_allowed_def widget_def allowed_def)
  have k: "\<exists>k \<in> set (Object_keys [(''color'', JStr ''red'')]).
             k \<notin> {''name'', ''price'', ''category'', ''description''}"
    by (simp add: Object_keys_def)
  note a = other_keys_ignored_on_create_and_replace
      [of 1 2 161 "widget @ [(''color'', JStr ''red'')]" empty_shop hex_driver 3 id_a1]
  note b = other_keys_ignored_on_create_and_replace
      [of 1 2 161 "widget @ [(''color'', JStr ''red'')]" shop1 hex_driver 3 id_a1]
  note c = other_keys_ignored_on_create_and_replace
      [of 1 2 161 "[(''color'', JStr ''red'')]" shop1 hex_driver 3 id_a1]
  from a have 1: "post_items 1 2 161 (widget @ [(''color'', JStr ''red'')]) empty_shop
     = post_items 1 2 161 widget empty_shop"
    unfolding o by blast
  from b have 2: "put_item hex_driver 3 id_a1 (widget @ [(''color'', JStr ''red'')]) shop1
       = put_item hex_driver 3 id_a1 widget shop1"
    unfolding o by blast
  from c k have 3: "status (fst (patch_item hex_driver 3 id_a1 [(''color'', JStr ''red'')] shop1)) = 400
   \<and> snd (patch_item hex_driver 3 id_a1 [(''color'', JStr ''red'')] shop1) = shop1"
    by blast
  from 1 2 3 show ?thesis by blast
qed

end
